theory Spec2Isabelle
  imports Complex_Main "HOL-Library.Multiset" "HOL-Library.Sublist"
begin

section \<open>JavaScript values\<close>

text \<open>
  The two services of the repository are TypeScript classes: \<open>AirweaveClient\<close> (the search
  gateway) and \<open>AIService\<close> (the enhancement pipeline). Their logic is written in terms of
  the dynamic values of the language, so the embedding starts with those.

  A number is an IEEE double: a finite value (a rational here), negative zero, an infinity
  or NaN. A value that came out of \<open>response.json()\<close> or \<open>JSON.parse\<close> is a \<open>json\<close>; the
  own properties of an object are an association list, in the order the language
  enumerates them (keys distinct, as the parser leaves them). \<open>undefined\<close> is never a JSON value, it only appears as the
  result of reading a property that is not there: a property read is a \<open>json option\<close>
  and \<open>None\<close> is \<open>undefined\<close>.

  Strings are \<open>string\<close>; a character stands for the UTF-16 code unit of the same code.
\<close>

datatype jsnum = Finite rat | NegZero | PosInf | NegInf | NaN

datatype json =
    JNull
  | JBool bool
  | JNum jsnum
  | JStr string
  | JArr "json list"
  | JObj "(string \<times> json) list"

text \<open>What a \<open>catch (error)\<close> clause receives: an \<open>Error\<close> object with its message, or
  any other thrown value.\<close>

datatype thrown = Error string | NonError

subsection \<open>Truthiness and \<open>||\<close>\<close>

fun num_truthy :: "jsnum \<Rightarrow> bool" where
  "num_truthy (Finite q) = (q \<noteq> 0)"
| "num_truthy NegZero = False"
| "num_truthy NaN = False"
| "num_truthy PosInf = True"
| "num_truthy NegInf = True"

fun truthy :: "json option \<Rightarrow> bool" where
  "truthy None = False"
| "truthy (Some JNull) = False"
| "truthy (Some (JBool b)) = b"
| "truthy (Some (JNum n)) = num_truthy n"
| "truthy (Some (JStr s)) = (s \<noteq> [])"
| "truthy (Some (JArr xs)) = True"
| "truthy (Some (JObj kvs)) = True"

text \<open>\<open>a || b\<close>: the left operand when it is truthy, the right operand otherwise (whatever
  the right operand is). \<open>a || b || c\<close> associates to the left.\<close>

definition js_or :: "json option \<Rightarrow> json option \<Rightarrow> json option" where
  "js_or a b = (if truthy a then a else b)"

definition or_chain :: "json option \<Rightarrow> json option list \<Rightarrow> json option" where
  "or_chain a bs = foldl js_or a bs"

text \<open>\<open>a || b\<close> where the right operand is a value that is always there (a literal, a
  parameter, the result of a call).\<close>

definition or_default :: "json option \<Rightarrow> json \<Rightarrow> json" where
  "or_default a b = (case a of Some v \<Rightarrow> if truthy (Some v) then v else b | None \<Rightarrow> b)"

subsection \<open>Characters and decimal numerals\<close>

text \<open>\<open>\<bsol>d\<close> of a regular expression, and \<open>\<bsol>s\<close>: the white space and line terminators of
  the language that have a code below 256 (tab, line feed, vertical tab, form feed,
  carriage return, space, no-break space). \<open>String.prototype.trim\<close> strips the same set.\<close>

definition is_digit :: "char \<Rightarrow> bool" where
  "is_digit c = (48 \<le> (of_char c :: nat) \<and> (of_char c :: nat) \<le> 57)"

definition is_space :: "char \<Rightarrow> bool" where
  "is_space c = ((of_char c :: nat) \<in> {9, 10, 11, 12, 13, 32, 160})"

definition trim :: "string \<Rightarrow> string" where
  "trim s = rev (dropWhile is_space (rev (dropWhile is_space s)))"

definition digit_char :: "nat \<Rightarrow> char" where
  "digit_char d = ''0123456789'' ! d"

definition digit_val :: "char \<Rightarrow> nat" where
  "digit_val c = of_char c - 48"

text \<open>The decimal numeral of a natural number, as a template literal or \<open>String\<close> prints an
  integer.\<close>

function decimal :: "nat \<Rightarrow> string" where
  "decimal n = (if n < 10 then [digit_char n] else decimal (n div 10) @ [digit_char (n mod 10)])"
  by pat_completeness auto
termination
  by (relation "measure id") auto

declare decimal.simps [simp del]

definition nat_of_digits :: "string \<Rightarrow> nat" where
  "nat_of_digits ds = foldl (\<lambda>acc c. 10 * acc + digit_val c) 0 ds"

section \<open>Conversions of the language\<close>

text \<open>
  \<open>String(v)\<close>, \<open>Number(v)\<close> and \<open>JSON.stringify(v)\<close> belong to the language, not to the
  repository. They are written out here for JSON values, but for the two conversions
  that are floating-point algorithms: printing a number that is not an integer below
  \<open>2^53\<close> (the language prints the shortest digits that read back as the same double),
  and reading a number from a string. Those are parameters of the model (a
  \<open>js_runtime\<close>), and every theorem below holds for every runtime. An integer below
  \<open>2^53\<close> is printed with all its digits.
\<close>

record js_runtime =
  finiteToString :: "rat \<Rightarrow> string"
  stringToNumber :: "string \<Rightarrow> jsnum"

definition is_integer :: "rat \<Rightarrow> bool" where
  "is_integer q = (q = of_int \<lfloor>q\<rfloor>)"

definition numberToString :: "js_runtime \<Rightarrow> jsnum \<Rightarrow> string" where
  "numberToString rt n =
     (case n of
        NaN \<Rightarrow> ''NaN''
      | PosInf \<Rightarrow> ''Infinity''
      | NegInf \<Rightarrow> ''-Infinity''
      | NegZero \<Rightarrow> ''0''
      | Finite q \<Rightarrow>
          if is_integer q \<and> \<bar>q\<bar> < 2 ^ 53
          then (if q < 0 then ''-'' else []) @ decimal (nat \<bar>\<lfloor>q\<rfloor>\<bar>)
          else finiteToString rt q)"

fun join_with :: "string \<Rightarrow> string list \<Rightarrow> string" where
  "join_with sep [] = []"
| "join_with sep [x] = x"
| "join_with sep (x # y # r) = x @ sep @ join_with sep (y # r)"

text \<open>
  Converting an object to a primitive calls its \<open>toString\<close> and \<open>valueOf\<close> methods, those
  that are callable. An object that came out of a JSON parser inherits both; an own
  property of it is never callable. So an own property named \<open>toString\<close> hides the
  inherited method, the inherited \<open>valueOf\<close> returns the object itself, and the
  conversion throws a \<open>TypeError\<close> (the message is V8's). An own property named
  \<open>valueOf\<close> changes nothing: the inherited \<open>toString\<close> still answers.
\<close>

definition primitive_error_message :: string where
  "primitive_error_message = ''Cannot convert object to primitive value''"

text \<open>The results of a list of steps that can throw, in order: the first exception ends
  it.\<close>

fun sequence :: "(thrown + 'a) list \<Rightarrow> thrown + 'a list" where
  "sequence [] = Inr []"
| "sequence (Inl e # rest) = Inl e"
| "sequence (Inr v # rest) = (case sequence rest of Inl e \<Rightarrow> Inl e | Inr vs \<Rightarrow> Inr (v # vs))"

text \<open>\<open>String(v)\<close>. An array prints its elements joined by commas, \<open>null\<close> as the empty
  string, and throws when an element throws; an object prints as \<open>[object Object]\<close>
  unless it has an own \<open>toString\<close> property.\<close>

fun jsString :: "js_runtime \<Rightarrow> json \<Rightarrow> thrown + string" where
  "jsString rt JNull = Inr ''null''"
| "jsString rt (JBool b) = Inr (if b then ''true'' else ''false'')"
| "jsString rt (JNum n) = Inr (numberToString rt n)"
| "jsString rt (JStr s) = Inr s"
| "jsString rt (JArr xs) =
     (case sequence (map (\<lambda>x. if x = JNull then Inr [] else jsString rt x) xs) of
        Inl e \<Rightarrow> Inl e
      | Inr parts \<Rightarrow> Inr (join_with '','' parts))"
| "jsString rt (JObj kvs) =
     (if map_of kvs ''toString'' \<noteq> None then Inl (Error primitive_error_message)
      else Inr ''[object Object]'')"

text \<open>\<open>Number(v)\<close>. An array is converted through its string; an object without an own
  \<open>toString\<close> property through \<open>[object Object]\<close>, which reads as NaN.\<close>

fun toNumber :: "js_runtime \<Rightarrow> json \<Rightarrow> thrown + jsnum" where
  "toNumber rt JNull = Inr (Finite 0)"
| "toNumber rt (JBool b) = Inr (Finite (if b then 1 else 0))"
| "toNumber rt (JNum n) = Inr n"
| "toNumber rt (JStr s) = Inr (stringToNumber rt s)"
| "toNumber rt (JArr xs) =
     (case jsString rt (JArr xs) of Inl e \<Rightarrow> Inl e | Inr s \<Rightarrow> Inr (stringToNumber rt s))"
| "toNumber rt (JObj kvs) =
     (if map_of kvs ''toString'' \<noteq> None then Inl (Error primitive_error_message)
      else Inr NaN)"

text \<open>\<open>JSON.stringify(v)\<close> with no indentation. A string is quoted with the escapes of the
  language; an infinity or NaN prints as \<open>null\<close>. It looks for a \<open>toJSON\<close> method and
  calls it only when it is callable, so it throws on no JSON value.\<close>

definition hex_digit :: "nat \<Rightarrow> char" where
  "hex_digit d = ''0123456789abcdef'' ! d"

definition escape_char :: "char \<Rightarrow> string" where
  "escape_char c =
     (let n = (of_char c :: nat) in
      if n = 34 then [CHR 0x5C, CHR 0x22]
      else if n = 92 then [CHR 0x5C, CHR 0x5C]
      else if n = 8 then [CHR 0x5C, CHR ''b'']
      else if n = 9 then [CHR 0x5C, CHR ''t'']
      else if n = 10 then [CHR 0x5C, CHR ''n'']
      else if n = 12 then [CHR 0x5C, CHR ''f'']
      else if n = 13 then [CHR 0x5C, CHR ''r'']
      else if n < 32 then [CHR 0x5C, CHR ''u'', CHR ''0'', CHR ''0'', hex_digit (n div 16), hex_digit (n mod 16)]
      else [c])"

definition quote :: "string \<Rightarrow> string" where
  "quote s = [CHR 0x22] @ concat (map escape_char s) @ [CHR 0x22]"

fun stringify :: "js_runtime \<Rightarrow> json \<Rightarrow> string" where
  "stringify rt JNull = ''null''"
| "stringify rt (JBool b) = (if b then ''true'' else ''false'')"
| "stringify rt (JNum n) =
     (case n of PosInf \<Rightarrow> ''null'' | NegInf \<Rightarrow> ''null'' | NaN \<Rightarrow> ''null''
      | _ \<Rightarrow> numberToString rt n)"
| "stringify rt (JStr s) = quote s"
| "stringify rt (JArr xs) = ''['' @ join_with '','' (map (stringify rt) xs) @ '']''"
| "stringify rt (JObj kvs) =
     ''{'' @ join_with '','' (map (\<lambda>kv. quote (fst kv) @ '':'' @ stringify rt (snd kv)) kvs) @ ''}''"

text \<open>Reading a property \<open>obj.k\<close> of a value that is not \<open>null\<close>: an own property of an
  object, \<open>undefined\<close> on anything else (none of the names the source reads is a property
  of a string, a number, a boolean or an array). Reading a property of \<open>null\<close> throws; the
  callers below say where.\<close>

fun property :: "json \<Rightarrow> string \<Rightarrow> json option" where
  "property (JObj kvs) k = map_of kvs k"
| "property v k = None"

section \<open>The search gateway: \<open>AirweaveClient\<close>\<close>

subsection \<open>Types of \<open>types/index.ts\<close>\<close>

datatype LLMProvider = google | openai | anthropic

datatype SearchType = hybrid | semantic | keyword

datatype OutputFormat = json_format | text_format

text \<open>\<open>maxResults\<close> is the result of \<open>parseInt\<close>, a number that may be NaN. An API key of
  the model provider is \<open>undefined\<close> when its environment variable is not set.\<close>

record AppConfig =
  airweaveApiKey :: string
  airweaveCollectionId :: string
  airweaveApiUrl :: string
  llmProvider :: LLMProvider
  googleApiKey :: "string option"
  openaiApiKey :: "string option"
  anthropicApiKey :: "string option"
  defaultSearchType :: SearchType
  maxResults :: jsnum
  defaultOutputFormat :: OutputFormat

record SearchOptions =
  query :: string
  searchType :: "SearchType option"
  limit :: "jsnum option"
  enhanceQuery :: "bool option"

text \<open>A \<open>SearchResult\<close> as \<open>transformResponse\<close> builds it. The four fields that go through
  \<open>String\<close> and the one that goes through \<open>Number\<close> have that type at run time; the
  others are the raw property, cast but not converted, so they are any JSON value or
  \<open>undefined\<close>.\<close>

record SearchResult =
  id' :: string
  content :: string
  source :: string
  sourceType :: string
  score :: jsnum
  metadata :: "json option"
  url :: "json option"
  title :: "json option"
  createdAt :: "json option"
  updatedAt :: "json option"

record SearchResponse =
  success :: bool
  query :: string
  enhancedQuery :: "string option"
  searchType :: SearchType
  results :: "SearchResult list"
  totalResults :: nat
  processingTime :: "int option"
  error :: "string option"

subsection \<open>The client and its environment\<close>

record AirweaveClient =
  apiKey :: string
  baseUrl :: string
  collectionId :: string

text \<open>\<open>isConfigured\<close>: \<^verbatim>\<open>!!(this.apiKey && this.collectionId)\<close>; a string is truthy when it
  is not empty.\<close>

definition isConfigured :: "AirweaveClient \<Rightarrow> bool" where
  "isConfigured c = (apiKey c \<noteq> [] \<and> collectionId c \<noteq> [])"

text \<open>
  What \<open>search\<close> reads from outside: the clock (\<open>Date.now()\<close> at the start and after the
  request, in milliseconds), and \<open>fetch\<close>; \<open>appConfig\<close> is passed beside it. A call of \<open>fetch\<close> is
  rejected (a transport failure) or answers with a response: its status, and what reading
  the body as text and as JSON gives (either can throw). \<open>response.ok\<close> is the Fetch
  standard's: the status is in the range 200 to 299. The console output of the source is
  not modelled.
\<close>

record http_request =
  req_url :: string
  req_method :: string
  req_headers :: "(string \<times> string) list"
  req_body :: string

record http_response =
  status :: nat
  statusText :: string
  body_text :: "thrown + string"
  body_json :: "thrown + json"

datatype fetch_outcome = Rejected thrown | Responded http_response

record environment =
  now_start :: int
  now_end :: int
  fetch :: "http_request \<Rightarrow> fetch_outcome"

definition ok :: "http_response \<Rightarrow> bool" where
  "ok r = (200 \<le> status r \<and> status r \<le> 299)"

definition searchType_string :: "SearchType \<Rightarrow> string" where
  "searchType_string t = (case t of hybrid \<Rightarrow> ''hybrid'' | semantic \<Rightarrow> ''semantic'' | keyword \<Rightarrow> ''keyword'')"

subsection \<open>\<open>transformResponse\<close>\<close>

text \<open>Lines 146 to 167: the raw result sequence of the response value. \<open>Array.isArray\<close>
  of a property that is absent is false.\<close>

fun isArray :: "json option \<Rightarrow> bool" where
  "isArray (Some (JArr xs)) = True"
| "isArray v = False"

fun elements :: "json option \<Rightarrow> json list" where
  "elements (Some (JArr xs)) = xs"
| "elements v = []"

fun typeof_object :: "json \<Rightarrow> bool" where
  "typeof_object JNull = True"
| "typeof_object (JArr xs) = True"
| "typeof_object (JObj kvs) = True"
| "typeof_object v = False"

definition rawResults :: "json \<Rightarrow> json list" where
  "rawResults data =
     (if isArray (Some data) then elements (Some data)
      else if truthy (Some data) \<and> typeof_object data then
        (if isArray (property data ''results'') then elements (property data ''results'')
         else if isArray (property data ''data'') then elements (property data ''data'')
         else if isArray (property data ''items'') then elements (property data ''items'')
         else if isArray (property data ''hits'') then elements (property data ''hits'')
         else if isArray (property data ''documents'') then elements (property data ''documents'')
         else [])
      else [])"

text \<open>
  Lines 173 to 200: the callback of \<open>rawResults.map\<close>, for the element \<open>item\<close> at
  position \<open>index\<close>. The first thing it evaluates is \<open>obj.content\<close>; on \<open>null\<close> that read
  throws a \<open>TypeError\<close> (the message is V8's). Then come the five conversions, in the
  order of the source: the content, the id, the source, the source type (all through
  \<open>String\<close>) and the score (through \<open>Number\<close>); each of them throws on an object with an
  own \<open>toString\<close> property. Nothing in \<open>transformResponse\<close> catches either exception.
  The five definitions that follow are the arguments of those conversions.
\<close>

definition null_read_message :: string where
  "null_read_message =
     ''Cannot read properties of null (reading '' @ [CHR 0x27] @ ''content'' @ [CHR 0x27] @ '')''"

definition content_value :: "js_runtime \<Rightarrow> json \<Rightarrow> json" where
  "content_value rt obj =
     or_default (or_chain (property obj ''content'')
       [property obj ''text'', property obj ''body'', property obj ''document'',
        property obj ''page_content'', property obj ''chunk'', property obj ''data''])
       (JStr (stringify rt obj))"

definition id_value :: "json \<Rightarrow> nat \<Rightarrow> json" where
  "id_value obj index =
     or_default (or_chain (property obj ''id'') [property obj ''_id'', property obj ''entity_id''])
       (JNum (Finite (of_nat index)))"

definition source_value :: "json \<Rightarrow> json" where
  "source_value obj =
     or_default (or_chain (property obj ''source'')
       [property obj ''source_name'', property obj ''collection'']) (JStr ''notion'')"

definition sourceType_value :: "json \<Rightarrow> json" where
  "sourceType_value obj =
     or_default (or_chain (property obj ''source_type'') [property obj ''type'']) (JStr ''notion'')"

definition score_value :: "json \<Rightarrow> json" where
  "score_value obj =
     or_default (or_chain (property obj ''score'')
       [property obj ''relevance_score'', property obj ''_score'', property obj ''similarity''])
       (JNum (Finite 1))"

definition and_then :: "thrown + 'a \<Rightarrow> ('a \<Rightarrow> thrown + 'b) \<Rightarrow> thrown + 'b" where
  "and_then r f = (case r of Inl e \<Rightarrow> Inl e | Inr v \<Rightarrow> f v)"

definition transformItem :: "js_runtime \<Rightarrow> json \<Rightarrow> nat \<Rightarrow> thrown + SearchResult" where
  "transformItem rt item index =
     (if item = JNull then Inl (Error null_read_message)
      else
        let obj = item in
        and_then (jsString rt (content_value rt obj)) (\<lambda>content_string.
        and_then (jsString rt (id_value obj index)) (\<lambda>id_string.
        and_then (jsString rt (source_value obj)) (\<lambda>source_string.
        and_then (jsString rt (sourceType_value obj)) (\<lambda>sourceType_string.
        and_then (toNumber rt (score_value obj)) (\<lambda>score_number.
          Inr \<lparr>
            id' = id_string,
            content = content_string,
            source = source_string,
            sourceType = sourceType_string,
            score = score_number,
            metadata = property obj ''metadata'',
            url = property obj ''url'',
            title = js_or (property obj ''title'') (property obj ''name''),
            createdAt = js_or (property obj ''created_at'') (property obj ''createdAt''),
            updatedAt = js_or (property obj ''updated_at'') (property obj ''updatedAt'')
          \<rparr>))))))"

text \<open>\<open>Array.prototype.map\<close> calls the callback on the elements in order, with their
  positions; the first exception ends it.\<close>

fun mapItems :: "js_runtime \<Rightarrow> nat \<Rightarrow> json list \<Rightarrow> thrown + SearchResult list" where
  "mapItems rt index [] = Inr []"
| "mapItems rt index (item # rest) =
     (case transformItem rt item index of
        Inl e \<Rightarrow> Inl e
      | Inr r \<Rightarrow>
          (case mapItems rt (Suc index) rest of
             Inl e \<Rightarrow> Inl e
           | Inr rs \<Rightarrow> Inr (r # rs)))"

definition transformResponse :: "js_runtime \<Rightarrow> json \<Rightarrow> thrown + SearchResult list" where
  "transformResponse rt data = mapItems rt 0 (rawResults data)"

subsection \<open>\<open>makeSearchRequest\<close> and \<open>search\<close>\<close>

text \<open>Both return, beside their result, the requests they sent through \<open>fetch\<close>, in
  order: the network I/O of the call. \<open>search_request\<close> is the request that lines 105 to
  123 build.\<close>

definition search_request ::
  "AirweaveClient \<Rightarrow> AppConfig \<Rightarrow> js_runtime \<Rightarrow> SearchOptions \<Rightarrow> http_request" where
  "search_request c appConfig rt options =
     (let url = baseUrl c @ ''/collections/'' @ collectionId c @ ''/search'';
          requestBody = JObj
            [(''query'', JStr (SearchOptions.query options)),
             (''search_type'', JStr (searchType_string
                (case SearchOptions.searchType options of Some t \<Rightarrow> t | None \<Rightarrow> hybrid))),
             (''limit'', JNum
                (case limit options of
                   Some n \<Rightarrow> if num_truthy n then n else maxResults appConfig
                 | None \<Rightarrow> maxResults appConfig))]
      in \<lparr>req_url = url, req_method = ''POST'',
          req_headers = [(''Content-Type'', ''application/json''), (''x-api-key'', apiKey c)],
          req_body = stringify rt requestBody\<rparr>)"

definition makeSearchRequest ::
  "AirweaveClient \<Rightarrow> AppConfig \<Rightarrow> environment \<Rightarrow> js_runtime \<Rightarrow> SearchOptions \<Rightarrow>
     (thrown + SearchResult list) \<times> http_request list" where
  "makeSearchRequest c appConfig env rt options =
     (let request = search_request c appConfig rt options
      in (case fetch env request of
            Rejected e \<Rightarrow> Inl e
          | Responded response \<Rightarrow>
              if \<not> ok response then
                (case body_text response of
                   Inl e \<Rightarrow> Inl e
                 | Inr errorText \<Rightarrow>
                     Inl (Error (''Airweave API error (''
                                 @ numberToString rt (Finite (of_nat (status response)))
                                 @ ''): '' @ errorText)))
              else
                (case body_json response of
                   Inl e \<Rightarrow> Inl e
                 | Inr data \<Rightarrow> transformResponse rt data),
          [request]))"

definition not_configured_message :: string where
  "not_configured_message =
     ''Airweave client not configured. Please set API key and collection ID.''"

definition search ::
  "AirweaveClient \<Rightarrow> AppConfig \<Rightarrow> environment \<Rightarrow> js_runtime \<Rightarrow> SearchOptions \<Rightarrow>
     SearchResponse \<times> http_request list" where
  "search c appConfig env rt options =
     (let startTime = now_start env;
          st = (case SearchOptions.searchType options of Some t \<Rightarrow> t | None \<Rightarrow> hybrid)
      in
      if \<not> isConfigured c then
        (\<lparr>success = False, query = SearchOptions.query options, enhancedQuery = None,
           searchType = st, results = [], totalResults = 0, processingTime = None,
           error = Some not_configured_message\<rparr>, [])
      else
        (case makeSearchRequest c appConfig env rt options of
           (Inr response_results, sent) \<Rightarrow>
             (\<lparr>success = True, query = SearchOptions.query options, enhancedQuery = None,
                searchType = st, results = response_results,
                totalResults = (if length response_results = 0 then 0 else length response_results),
                processingTime = Some (now_end env - startTime),
                error = None\<rparr>, sent)
         | (Inl e, sent) \<Rightarrow>
             (let errorMessage = (case e of Error m \<Rightarrow> m | NonError \<Rightarrow> ''Unknown error occurred'')
              in (\<lparr>success = False, query = SearchOptions.query options, enhancedQuery = None,
                    searchType = st, results = [], totalResults = 0, processingTime = None,
                    error = Some errorMessage\<rparr>, sent))))"

section \<open>Regular expressions\<close>

text \<open>
  The three patterns of the source are sequences of one-character items, each a character
  class with a quantifier. \<open>match_here\<close> is the backtracking matcher of the language at one
  start position: a quantified item is greedy, it takes as many characters as it can and
  gives them back one at a time while the rest of the pattern fails. The result is the
  text left after the match. \<open>rx_match\<close> is \<open>String.prototype.match\<close> for a pattern without
  the \<open>g\<close> flag: the match at the leftmost start position that has one (\<open>match[0]\<close>), or
  \<open>None\<close> for \<open>null\<close>.
\<close>

datatype quant = One | Star | Plus

type_synonym rx_item = "(char \<Rightarrow> bool) \<times> quant"

fun match_here :: "rx_item list \<Rightarrow> string \<Rightarrow> string option" where
  "match_here [] s = Some s"
| "match_here ((p, One) # r) [] = None"
| "match_here ((p, One) # r) (c # cs) = (if p c then match_here r cs else None)"
| "match_here ((p, Plus) # r) [] = None"
| "match_here ((p, Plus) # r) (c # cs) = (if p c then match_here ((p, Star) # r) cs else None)"
| "match_here ((p, Star) # r) [] = match_here r []"
| "match_here ((p, Star) # r) (c # cs) =
     (if p c then
        (case match_here ((p, Star) # r) cs of
           Some rest \<Rightarrow> Some rest
         | None \<Rightarrow> match_here r (c # cs))
      else match_here r (c # cs))"

fun rx_match :: "rx_item list \<Rightarrow> string \<Rightarrow> string option" where
  "rx_match r [] = (case match_here r [] of Some rest \<Rightarrow> Some [] | None \<Rightarrow> None)"
| "rx_match r (c # cs) =
     (case match_here r (c # cs) of
        Some rest \<Rightarrow> Some (take (length (c # cs) - length rest) (c # cs))
      | None \<Rightarrow> rx_match r cs)"

definition lit :: "char \<Rightarrow> rx_item" where
  "lit ch = ((\<lambda>c. c = ch), One)"

text \<open>\<^verbatim>\<open>/\[[\d\s,]+\]/\<close> of \<open>reRankResults\<close>.\<close>

definition index_array_rx :: "rx_item list" where
  "index_array_rx =
     [lit CHR ''['', ((\<lambda>c. is_digit c \<or> is_space c \<or> c = CHR '',''), Plus), lit CHR '']'']"

text \<open>\<^verbatim>\<open>/\{[\s\S]*\}/\<close> of \<open>enhanceQuery\<close> and \<open>summarizeResults\<close>: the class \<^verbatim>\<open>[\s\S]\<close>
  holds every character.\<close>

definition json_object_rx :: "rx_item list" where
  "json_object_rx = [lit CHR ''{'', ((\<lambda>c. is_space c \<or> \<not> is_space c), Star), lit CHR ''}'']"

section \<open>The enhancement pipeline: \<open>AIService\<close>\<close>

record QueryEnhancement =
  originalQuery :: string
  enhancedQuery :: json
  keywords' :: json
  intent :: json

record ResultSummary =
  summary :: json
  keyPoints :: json
  relevantTopics :: json

record AIService =
  provider :: LLMProvider
  model :: string

text \<open>\<open>isConfigured\<close> of the service: the API key of the selected provider is truthy (a
  string that is there and not empty).\<close>

definition key_truthy :: "string option \<Rightarrow> bool" where
  "key_truthy k = (case k of Some s \<Rightarrow> s \<noteq> [] | None \<Rightarrow> False)"

definition ai_isConfigured :: "AIService \<Rightarrow> AppConfig \<Rightarrow> bool" where
  "ai_isConfigured svc appConfig =
     (if provider svc = google then key_truthy (googleApiKey appConfig)
      else if provider svc = openai then key_truthy (openaiApiKey appConfig)
      else if provider svc = anthropic then key_truthy (anthropicApiKey appConfig)
      else False)"

text \<open>
  Each of the three operations below calls the model once, through \<open>generateText\<close> of the
  AI SDK. The outcome of that call is an input of the model: the call is rejected, or it
  answers with a text. \<open>JSON.parse\<close> of an arbitrary text is an input too (a function that
  throws or returns a value): its number syntax is floating point. The prompt is built
  inside the \<open>try\<close> block from strings and numbers and is not modelled.
\<close>

record llm =
  generated :: "thrown + string"
  JSON_parse :: "string \<Rightarrow> thrown + json"

subsection \<open>\<open>enhanceQuery\<close>\<close>

definition identity_enhancement :: "string \<Rightarrow> QueryEnhancement" where
  "identity_enhancement userQuery =
     \<lparr>originalQuery = userQuery, enhancedQuery = JStr userQuery, keywords' = JArr [],
      intent = JStr ''search''\<rparr>"

text \<open>Lines 110 to 125, inside the \<open>try\<close> block: \<open>Inl\<close> is an exception, which the \<open>catch\<close>
  clause of the caller receives. A property read on the parsed value throws when that
  value is \<open>null\<close>.\<close>

definition enhance_from_text :: "llm \<Rightarrow> string \<Rightarrow> string \<Rightarrow> thrown + QueryEnhancement" where
  "enhance_from_text m userQuery text =
     (let responseText = trim text in
      case rx_match json_object_rx responseText of
        None \<Rightarrow> Inl (Error ''No JSON found in response'')
      | Some jsonMatch \<Rightarrow>
          (case JSON_parse m jsonMatch of
             Inl e \<Rightarrow> Inl e
           | Inr parsed \<Rightarrow>
               if parsed = JNull then Inl (Error ''Cannot read properties of null'')
               else Inr \<lparr>originalQuery = userQuery,
                         enhancedQuery = or_default (property parsed ''enhanced_query'') (JStr userQuery),
                         keywords' = or_default (property parsed ''keywords'') (JArr []),
                         intent = or_default (property parsed ''intent'') (JStr ''search'')\<rparr>))"

definition enhanceQuery :: "AIService \<Rightarrow> AppConfig \<Rightarrow> llm \<Rightarrow> string \<Rightarrow> QueryEnhancement" where
  "enhanceQuery svc appConfig m userQuery =
     (if \<not> ai_isConfigured svc appConfig then identity_enhancement userQuery
      else
        (case generated m of
           Inl e \<Rightarrow> identity_enhancement userQuery
         | Inr text \<Rightarrow>
             (case enhance_from_text m userQuery text of
                Inl e \<Rightarrow> identity_enhancement userQuery
              | Inr r \<Rightarrow> r)))"

subsection \<open>\<open>summarizeResults\<close>\<close>

definition no_results_summary :: ResultSummary where
  "no_results_summary =
     \<lparr>summary = JStr ''No results to summarize.'', keyPoints = JArr [], relevantTopics = JArr []\<rparr>"

definition failed_summary :: ResultSummary where
  "failed_summary =
     \<lparr>summary = JStr ''Failed to generate summary.'', keyPoints = JArr [], relevantTopics = JArr []\<rparr>"

definition summary_from_text :: "llm \<Rightarrow> string \<Rightarrow> thrown + ResultSummary" where
  "summary_from_text m text =
     (let responseText = trim text in
      case rx_match json_object_rx responseText of
        None \<Rightarrow> Inl (Error ''No JSON found in response'')
      | Some jsonMatch \<Rightarrow>
          (case JSON_parse m jsonMatch of
             Inl e \<Rightarrow> Inl e
           | Inr parsed \<Rightarrow>
               if parsed = JNull then Inl (Error ''Cannot read properties of null'')
               else Inr \<lparr>summary = or_default (property parsed ''summary'')
                                      (JStr ''Unable to generate summary.''),
                         keyPoints = or_default (property parsed ''key_points'') (JArr []),
                         relevantTopics = or_default (property parsed ''relevant_topics'') (JArr [])\<rparr>))"

definition summarizeResults ::
  "AIService \<Rightarrow> AppConfig \<Rightarrow> llm \<Rightarrow> SearchResult list \<Rightarrow> string \<Rightarrow> ResultSummary" where
  "summarizeResults svc appConfig m rs original_query =
     (if \<not> ai_isConfigured svc appConfig \<or> length rs = 0 then no_results_summary
      else
        (case generated m of
           Inl e \<Rightarrow> failed_summary
         | Inr text \<Rightarrow>
             (case summary_from_text m text of
                Inl e \<Rightarrow> failed_summary
              | Inr r \<Rightarrow> r)))"

text \<open>The failures of one model call that the two operations above catch: the call is
  rejected, the answer has no span for the pattern, \<open>JSON.parse\<close> throws on the span, or
  reading a property of the parsed value throws.\<close>

definition model_failure :: "llm \<Rightarrow> bool" where
  "model_failure m =
     (case generated m of
        Inl e \<Rightarrow> True
      | Inr text \<Rightarrow>
          (case rx_match json_object_rx (trim text) of
             None \<Rightarrow> True
           | Some jsonMatch \<Rightarrow>
               (case JSON_parse m jsonMatch of Inl e \<Rightarrow> True | Inr parsed \<Rightarrow> parsed = JNull)))"

subsection \<open>\<open>reRankResults\<close>\<close>

text \<open>
  \<open>JSON.parse\<close> of a text that \<^verbatim>\<open>/\[[\d\s,]+\]/\<close> matched. On that alphabet the JSON
  grammar is small enough to write out: an opening bracket, then either only white space
  or numbers separated by commas, then the closing bracket. JSON white space is space,
  tab, line feed and carriage return (the other characters of \<open>\<bsol>s\<close> are a syntax error);
  a number is \<open>0\<close> or a digit sequence that does not start with \<open>0\<close>. \<open>None\<close> is the
  \<open>SyntaxError\<close>. A parsed number is a natural number here; a double agrees with it on
  the only test the source makes, \<open>i < results.length\<close>, since it is exact below \<open>2^53\<close>
  and an array is shorter than that.
\<close>

definition json_ws :: "char \<Rightarrow> bool" where
  "json_ws c = ((of_char c :: nat) \<in> {32, 9, 10, 13})"

datatype parse_state = AfterOpen | AfterComma | InNumber string | AfterNumber

definition finish :: "nat list \<Rightarrow> string \<Rightarrow> nat list option" where
  "finish acc rest = (if list_all json_ws rest then Some (rev acc) else None)"

fun parse_elements :: "parse_state \<Rightarrow> nat list \<Rightarrow> string \<Rightarrow> nat list option" where
  "parse_elements st acc [] = None"
| "parse_elements AfterOpen acc (c # cs) =
     (if json_ws c then parse_elements AfterOpen acc cs
      else if c = CHR '']'' then finish acc cs
      else if is_digit c then parse_elements (InNumber [c]) acc cs
      else None)"
| "parse_elements AfterComma acc (c # cs) =
     (if json_ws c then parse_elements AfterComma acc cs
      else if is_digit c then parse_elements (InNumber [c]) acc cs
      else None)"
| "parse_elements (InNumber ds) acc (c # cs) =
     (if is_digit c then (if ds = ''0'' then None else parse_elements (InNumber (ds @ [c])) acc cs)
      else if json_ws c then parse_elements AfterNumber (nat_of_digits ds # acc) cs
      else if c = CHR '','' then parse_elements AfterComma (nat_of_digits ds # acc) cs
      else if c = CHR '']'' then finish (nat_of_digits ds # acc) cs
      else None)"
| "parse_elements AfterNumber acc (c # cs) =
     (if json_ws c then parse_elements AfterNumber acc cs
      else if c = CHR '','' then parse_elements AfterComma acc cs
      else if c = CHR '']'' then finish acc cs
      else None)"

definition parse_index_array :: "string \<Rightarrow> nat list option" where
  "parse_index_array s =
     (case dropWhile json_ws s of
        c # cs \<Rightarrow> if c = CHR ''['' then parse_elements AfterOpen [] cs else None
      | [] \<Rightarrow> None)"

text \<open>The first loop (lines 245 to 250): \<open>reordered\<close> and \<open>usedIndices\<close> are the state. Every
  index it reads is in range, since \<open>validIndices\<close> was filtered.\<close>

fun reorder_loop ::
  "SearchResult list \<Rightarrow> nat list \<Rightarrow> SearchResult list \<times> nat set \<Rightarrow> SearchResult list \<times> nat set" where
  "reorder_loop rs [] st = st"
| "reorder_loop rs (idx # rest) (reordered, usedIndices) =
     (if idx \<notin> usedIndices
      then reorder_loop rs rest (reordered @ [rs ! idx], insert idx usedIndices)
      else reorder_loop rs rest (reordered, usedIndices))"

text \<open>The second loop (lines 253 to 257), over the positions \<open>0, ..., length - 1\<close>.\<close>

fun remaining_loop ::
  "SearchResult list \<Rightarrow> nat set \<Rightarrow> nat list \<Rightarrow> SearchResult list \<Rightarrow> SearchResult list" where
  "remaining_loop rs usedIndices [] reordered = reordered"
| "remaining_loop rs usedIndices (i # rest) reordered =
     (if i \<notin> usedIndices
      then remaining_loop rs usedIndices rest (reordered @ [rs ! i])
      else remaining_loop rs usedIndices rest reordered)"

text \<open>Lines 211 to 232: the index list the answer of the model gives. \<open>None\<close> stands for
  the three ways of leaving early, each of which returns \<open>results\<close>: the call is rejected
  or \<open>JSON.parse\<close> throws (the \<open>catch\<close> clause), or the pattern does not match.\<close>

definition answer_indices :: "llm \<Rightarrow> nat list option" where
  "answer_indices m =
     (case generated m of
        Inl e \<Rightarrow> None
      | Inr text \<Rightarrow>
          (let responseText = trim text in
           case rx_match index_array_rx responseText of
             None \<Rightarrow> None
           | Some arrayMatch \<Rightarrow> parse_index_array arrayMatch))"

text \<open>Lines 234 to 259.\<close>

definition reorder :: "SearchResult list \<Rightarrow> nat list \<Rightarrow> SearchResult list" where
  "reorder rs indices =
     (let validIndices = filter (\<lambda>i. 0 \<le> i \<and> i < length rs) indices in
      if length validIndices = 0 then rs
      else
        (let (reordered, usedIndices) = reorder_loop rs validIndices ([], {})
         in remaining_loop rs usedIndices [0..<length rs] reordered))"

definition reRankResults ::
  "AIService \<Rightarrow> AppConfig \<Rightarrow> llm \<Rightarrow> SearchResult list \<Rightarrow> string \<Rightarrow> SearchResult list" where
  "reRankResults svc appConfig m rs query_text =
     (if \<not> ai_isConfigured svc appConfig \<or> length rs \<le> 1 then rs
      else
        (case answer_indices m of
           None \<Rightarrow> rs
         | Some indices \<Rightarrow> reorder rs indices))"

section \<open>The order \<open>reRankResults\<close> is specified to produce\<close>

text \<open>
  In the words of the specification: discard the indices out of range, keep the first
  occurrence of each index, then append the positions never mentioned, in their original
  order.
\<close>

fun first_occurrences :: "nat list \<Rightarrow> nat list" where
  "first_occurrences [] = []"
| "first_occurrences (x # xs) = x # filter (\<lambda>y. y \<noteq> x) (first_occurrences xs)"

definition rerank_order :: "nat list \<Rightarrow> nat \<Rightarrow> nat list" where
  "rerank_order indices n =
     (let kept = first_occurrences (filter (\<lambda>i. i < n) indices)
      in kept @ filter (\<lambda>i. i \<notin> set kept) [0..<n])"

text \<open>The indices that reach the reordering: those of the answer, none when the service
  is not configured, there are fewer than two results, or the answer gives no list.\<close>

definition mentioned :: "AIService \<Rightarrow> AppConfig \<Rightarrow> llm \<Rightarrow> SearchResult list \<Rightarrow> nat list" where
  "mentioned svc appConfig m rs =
     (if ai_isConfigured svc appConfig \<and> 1 < length rs
      then (case answer_indices m of Some indices \<Rightarrow> indices | None \<Rightarrow> [])
      else [])"

section \<open>The specification's wording of the extraction rules\<close>

text \<open>The raw result sequence, as the specification words it: a sequence is used as it
  is; of a mapping, the first sequence-valued field among the five names, in this order;
  anything else gives no results.\<close>

definition wrapper_fields :: "string list" where
  "wrapper_fields = [''results'', ''data'', ''items'', ''hits'', ''documents'']"

fun extract_by_priority :: "json \<Rightarrow> json list" where
  "extract_by_priority (JArr xs) = xs"
| "extract_by_priority (JObj kvs) =
     (case filter isArray (map (map_of kvs) wrapper_fields) of
        [] \<Rightarrow> []
      | v # _ \<Rightarrow> elements v)"
| "extract_by_priority v = []"

text \<open>The first truthy value of a list of property reads, \<open>undefined\<close> when there is none.\<close>

definition first_truthy :: "json option list \<Rightarrow> json option" where
  "first_truthy vs = (case filter truthy vs of [] \<Rightarrow> None | v # _ \<Rightarrow> v)"



definition content_fields :: "string list" where
  "content_fields = [''content'', ''text'', ''body'', ''document'', ''page_content'', ''chunk'', ''data'']"

section \<open>The span a brace pattern selects\<close>

text \<open>The first balanced \<open>{...}\<close> span of a text, in the words of the specification: from
  the first opening brace to the closing brace that brings the nesting depth back to
  zero. \<open>balanced_end\<close> returns the characters up to and including that brace.\<close>

fun balanced_end :: "nat \<Rightarrow> string \<Rightarrow> string option" where
  "balanced_end depth [] = None"
| "balanced_end depth (c # cs) =
     (if c = CHR ''{'' then map_option ((#) c) (balanced_end (Suc depth) cs)
      else if c = CHR ''}'' then
        (if depth \<le> 1 then Some [c] else map_option ((#) c) (balanced_end (depth - 1) cs))
      else map_option ((#) c) (balanced_end depth cs))"

definition first_balanced_span :: "string \<Rightarrow> string option" where
  "first_balanced_span s = balanced_end 0 (dropWhile (\<lambda>c. c \<noteq> CHR ''{'') s)"

text \<open>From the first opening brace of a text to its last closing brace, when there is a
  closing brace after the first opening one.\<close>

definition outer_brace_span :: "string \<Rightarrow> string option" where
  "outer_brace_span s =
     (let t = dropWhile (\<lambda>c. c \<noteq> CHR ''{'') s in
      if CHR ''}'' \<in> set t then Some (rev (dropWhile (\<lambda>c. c \<noteq> CHR ''}'') (rev t))) else None)"

section \<open>Concrete inputs\<close>

text \<open>A runtime to evaluate with. On a digit string it reads the integer (the empty
  string reads as 0, any other string as NaN), and it prints a number with the digits
  of its decimal expansion, at most seventeen after the point. It stands in for the
  language at the inputs evaluated below, where both agree; the general theorems hold
  for every runtime.\<close>

fun fraction_digits :: "nat \<Rightarrow> rat \<Rightarrow> string" where
  "fraction_digits 0 r = []"
| "fraction_digits (Suc k) r =
     (if r = 0 then []
      else digit_char (nat \<lfloor>10 * r\<rfloor>) # fraction_digits k (10 * r - of_int \<lfloor>10 * r\<rfloor>))"

definition sample_runtime :: js_runtime where
  "sample_runtime =
     \<lparr>finiteToString = (\<lambda>q. (if q < 0 then ''-'' else []) @ decimal (nat \<lfloor>\<bar>q\<bar>\<rfloor>) @ ''.''
          @ fraction_digits 17 (\<bar>q\<bar> - of_int \<lfloor>\<bar>q\<bar>\<rfloor>)),
      stringToNumber = (\<lambda>s. if s = [] then Finite 0
                              else if list_all is_digit s then Finite (of_nat (nat_of_digits s))
                              else NaN)\<rparr>"

definition sample_client :: AirweaveClient where
  "sample_client = \<lparr>apiKey = ''k1'', baseUrl = ''https://api.airweave.ai'', collectionId = ''notes''\<rparr>"

definition sample_config :: AppConfig where
  "sample_config =
     \<lparr>airweaveApiKey = ''k1'', airweaveCollectionId = ''notes'',
      airweaveApiUrl = ''https://api.airweave.ai'', llmProvider = google,
      googleApiKey = Some ''g1'', openaiApiKey = None, anthropicApiKey = None,
      defaultSearchType = hybrid, maxResults = Finite 10, defaultOutputFormat = json_format\<rparr>"

definition sample_options :: SearchOptions where
  "sample_options =
     \<lparr>SearchOptions.query = ''hello'', SearchOptions.searchType = None, limit = None,
      SearchOptions.enhanceQuery = None\<rparr>"

definition sample_service :: AIService where
  "sample_service = \<lparr>provider = google, model = ''gemini-2.5-flash-preview''\<rparr>"

definition answering :: "fetch_outcome \<Rightarrow> int \<Rightarrow> int \<Rightarrow> environment" where
  "answering outcome t0 t1 = \<lparr>now_start = t0, now_end = t1, fetch = (\<lambda>request. outcome)\<rparr>"

definition http_500 :: fetch_outcome where
  "http_500 = Responded \<lparr>status = 500, statusText = ''Internal Server Error'',
                          body_text = Inr ''boom'', body_json = Inl (Error ''Unexpected token'')\<rparr>"

text \<open>A 500 whose body cannot be read: the connection ends before the body does, and
  \<open>response.text()\<close> rejects.\<close>

definition http_500_unreadable :: fetch_outcome where
  "http_500_unreadable = Responded \<lparr>status = 500, statusText = ''Internal Server Error'',
                          body_text = Inl (Error ''terminated''),
                          body_json = Inl (Error ''terminated'')\<rparr>"

definition http_200 :: "json \<Rightarrow> fetch_outcome" where
  "http_200 data = Responded \<lparr>status = 200, statusText = ''OK'',
                               body_text = Inr [], body_json = Inr data\<rparr>"

definition raw_hit :: "string \<Rightarrow> string \<Rightarrow> json" where
  "raw_hit i t = JObj [(''id'', JStr i), (''text'', JStr t), (''score'', JNum (Finite 2))]"

definition hit :: "string \<Rightarrow> string \<Rightarrow> SearchResult" where
  "hit i t = \<lparr>id' = i, content = t, source = ''notion'', sourceType = ''notion'',
              score = Finite 2, metadata = None, url = None, title = None,
              createdAt = None, updatedAt = None\<rparr>"

definition answer :: "string \<Rightarrow> llm" where
  "answer t = \<lparr>generated = Inr t, JSON_parse = (\<lambda>s. Inl (Error ''Unexpected token''))\<rparr>"


definition unconfigured_client :: AirweaveClient where
  "unconfigured_client = \<lparr>apiKey = [], baseUrl = ''https://api.airweave.ai'', collectionId = ''notes''\<rparr>"

definition unconfigured_config :: AppConfig where
  "unconfigured_config = sample_config\<lparr>googleApiKey := None\<rparr>"

definition http_201 :: "json \<Rightarrow> fetch_outcome" where
  "http_201 data = Responded \<lparr>status = 201, statusText = ''Created'',
                               body_text = Inr [], body_json = Inr data\<rparr>"

definition rejected :: llm where
  "rejected = \<lparr>generated = Inl (Error ''fetch failed''),
               JSON_parse = (\<lambda>s. Inl (Error ''Unexpected token''))\<rparr>"

text \<open>An answer whose brace span is one text that \<open>JSON.parse\<close> reads (as the value \<open>v\<close>);
  any other text is a syntax error.\<close>

definition answer_parsing :: "string \<Rightarrow> string \<Rightarrow> json \<Rightarrow> llm" where
  "answer_parsing t readable v =
     \<lparr>generated = Inr t,
      JSON_parse = (\<lambda>s. if s = readable then Inr v else Inl (Error ''Unexpected token''))\<rparr>"

section \<open>Re-ranking returns a permutation\<close>

text \<open>The two loops of \<open>reRankResults\<close> compute the specified order: the first one keeps the
  first occurrence of every valid index, the second one appends what is left.\<close>

lemma set_first_occurrences: "set (first_occurrences xs) = set xs"
  by (induction xs) auto

lemma distinct_first_occurrences: "distinct (first_occurrences xs)"
  by (induction xs) auto

lemma reorder_loop_eq:
  "reorder_loop rs vs (acc, used) =
     (acc @ map ((!) rs) (filter (\<lambda>i. i \<notin> used) (first_occurrences vs)), used \<union> set vs)"
proof (induction vs arbitrary: acc used)
  case Nil
  then show ?case by simp
next
  case (Cons v vs)
  have eq: "filter (\<lambda>i. i \<notin> insert v used) (first_occurrences vs)
          = filter (\<lambda>i. i \<notin> used) (filter (\<lambda>y. y \<noteq> v) (first_occurrences vs))"
    by (simp add: conj_commute)
  show ?case
  proof (cases "v \<in> used")
    case True
    then have "filter (\<lambda>i. i \<notin> used) (filter (\<lambda>y. y \<noteq> v) (first_occurrences vs))
             = filter (\<lambda>i. i \<notin> used) (first_occurrences vs)"
      by (auto intro: filter_cong)
    with True Cons.IH [of acc used] show ?thesis
      by (simp add: insert_absorb)
  next
    case False
    with Cons.IH [of "acc @ [rs ! v]" "insert v used"] eq show ?thesis
      by simp
  qed
qed

lemma remaining_loop_eq:
  "remaining_loop rs used is acc = acc @ map ((!) rs) (filter (\<lambda>i. i \<notin> used) is)"
  by (induction "is" arbitrary: acc) auto

lemma reorder_eq: "reorder rs indices = map ((!) rs) (rerank_order indices (length rs))"
proof (cases "filter (\<lambda>i. i < length rs) indices = []")
  case True
  then show ?thesis
    by (simp add: reorder_def rerank_order_def map_nth)
next
  case False
  then show ?thesis
    by (simp add: reorder_def rerank_order_def reorder_loop_eq remaining_loop_eq
        set_first_occurrences)
qed

lemma mset_rerank_order: "mset (rerank_order indices n) = mset [0..<n]"
proof -
  define kept where "kept = first_occurrences (filter (\<lambda>i. i < n) indices)"
  have d: "distinct kept" by (simp add: kept_def distinct_first_occurrences)
  have s: "set kept = set (filter (\<lambda>i. i \<in> set kept) [0..<n])"
    by (auto simp: kept_def set_first_occurrences)
  have "mset kept = mset (filter (\<lambda>i. i \<in> set kept) [0..<n])"
    using d s by (metis distinct_filter distinct_upt set_eq_iff_mset_eq_distinct)
  then have "mset (kept @ filter (\<lambda>i. i \<notin> set kept) [0..<n]) = mset [0..<n]"
    by (simp del: mset_upt)
  then show ?thesis by (simp add: rerank_order_def kept_def Let_def del: mset_upt)
qed

lemma mset_reorder: "mset (reorder rs indices) = mset rs"
proof -
  have "mset (map ((!) rs) (rerank_order indices (length rs))) = image_mset ((!) rs) (mset [0..<length rs])"
    by (simp only: mset_map mset_rerank_order)
  also have "\<dots> = mset (map ((!) rs) [0..<length rs])" by (simp only: mset_map)
  also have "\<dots> = mset rs" by (simp only: map_nth)
  finally show ?thesis by (simp only: reorder_eq)
qed

lemma rerank_order_Nil: "rerank_order [] n = [0..<n]"
  by (simp add: rerank_order_def)

text \<open>
  Claim C1. Whatever the service configuration, the input list and the outcome of the
  model call (a rejected call, a text with no index list, a list that does not parse, a
  permutation, a subset, indices out of range, repeated indices), \<open>reRankResults\<close> returns
  a permutation of its input: the same multiset of records. Its order is the specified
  one: of the indices the answer mentions, those in range, each at its first occurrence,
  then the positions never mentioned, in their original order.
\<close>

theorem reRankResults_permutation:
  "mset (reRankResults svc appConfig m rs q) = mset rs \<and>
   reRankResults svc appConfig m rs q =
     map ((!) rs) (rerank_order (mentioned svc appConfig m rs) (length rs))"
proof
  show "mset (reRankResults svc appConfig m rs q) = mset rs"
    by (simp add: reRankResults_def mset_reorder split: option.splits)
  show "reRankResults svc appConfig m rs q =
     map ((!) rs) (rerank_order (mentioned svc appConfig m rs) (length rs))"
    by (simp add: reRankResults_def mentioned_def reorder_eq rerank_order_Nil map_nth
        split: option.splits)
qed

text \<open>The service of the concrete inputs is configured.\<close>

lemma sample_configured: "ai_isConfigured sample_service sample_config"
  by (simp add: ai_isConfigured_def sample_service_def sample_config_def key_truthy_def)

text \<open>C1 at a concrete input: three results and the answer \<open>Sure: [2, 0, 2, 7]\<close>.\<close>

theorem reRankResults_permutation_witness:
  "reRankResults sample_service sample_config (answer ''Sure: [2, 0, 2, 7]'')
     [hit ''a'' ''x'', hit ''b'' ''y'', hit ''c'' ''z''] ''q''
   = [hit ''c'' ''z'', hit ''a'' ''x'', hit ''b'' ''y'']"
proof -
  have a: "answer_indices (answer ''Sure: [2, 0, 2, 7]'') = Some [2, 0, 2, 7]"
    by code_simp
  have m: "mentioned sample_service sample_config (answer ''Sure: [2, 0, 2, 7]'')
     [hit ''a'' ''x'', hit ''b'' ''y'', hit ''c'' ''z''] = [2, 0, 2, 7]"
    by (simp add: mentioned_def sample_configured a)
  have o: "rerank_order [2, 0, 2, 7] (Suc (Suc (Suc 0))) = [2, 0, 1]"
    by (simp add: rerank_order_def upt_rec)
  show ?thesis
    using reRankResults_permutation [of sample_service sample_config "answer ''Sure: [2, 0, 2, 7]''"
        "[hit ''a'' ''x'', hit ''b'' ''y'', hit ''c'' ''z'']" "''q''"]
    by (simp add: m o)
qed


section \<open>The gateway\<close>

subsection \<open>Extraction of the raw result sequence\<close>

lemma rawResults_object:
  "rawResults (JObj kvs) = extract_by_priority (JObj kvs)"
  by (simp add: rawResults_def wrapper_fields_def)

text \<open>
  Claim C3. For every response value the raw result sequence is the one the priority
  order gives: a bare array as it is; of an object, the first array-valued field among
  \<open>results\<close>, \<open>data\<close>, \<open>items\<close>, \<open>hits\<close>, \<open>documents\<close>; nothing for any other value,
  \<open>null\<close> and an object without such a field included. The extraction has no error
  branch: \<open>rawResults\<close> returns a list on every value.
\<close>

theorem rawResults_priority:
  "rawResults data = extract_by_priority data \<and>
   rawResults (JArr xs) = xs \<and>
   rawResults (JObj [(k, JArr xs)]) = (if k \<in> set wrapper_fields then xs else []) \<and>
   rawResults (JObj []) = [] \<and>
   rawResults JNull = []"
proof -
  have "rawResults data = extract_by_priority data"
    by (cases data) (simp_all add: rawResults_object, simp_all add: rawResults_def)
  moreover have "rawResults (JArr xs) = xs"
    by (simp add: rawResults_def)
  moreover have "rawResults (JObj [(k, JArr xs)]) = (if k \<in> set wrapper_fields then xs else [])"
    by (simp add: rawResults_def wrapper_fields_def)
  moreover have "rawResults (JObj []) = []" "rawResults JNull = []"
    by (simp_all add: rawResults_def)
  ultimately show ?thesis by blast
qed

text \<open>C3 at a concrete input: \<open>hits\<close> wins over \<open>documents\<close>, which comes earlier in the
  object, and \<open>data\<close> is passed over because it is not an array.\<close>

theorem rawResults_priority_witness:
  "rawResults (JObj [(''total'', JNum (Finite 2)), (''documents'', JArr [JNull]),
                     (''data'', JStr ''x''), (''hits'', JArr [JBool True])]) = [JBool True]"
  using rawResults_priority
    [of "JObj [(''total'', JNum (Finite 2)), (''documents'', JArr [JNull]),
               (''data'', JStr ''x''), (''hits'', JArr [JBool True])]"]
  by (simp add: wrapper_fields_def)

subsection \<open>\<open>search\<close> by cases\<close>

lemma status_500: "numberToString rt (Finite 500) = ''500''"
  by (simp add: numberToString_def is_integer_def decimal.simps digit_char_def)

lemma not_sublist_500: "\<not> sublist ''500'' ''terminated''"
proof
  assume "sublist ''500'' ''terminated''"
  then have "set ''500'' \<subseteq> set ''terminated''"
    by (rule set_mono_sublist)
  then show False by simp
qed

lemma search_unconfigured:
  "\<not> isConfigured c \<Longrightarrow>
   search c appConfig env rt options =
     (\<lparr>success = False, query = SearchOptions.query options, enhancedQuery = None,
       searchType = (case SearchOptions.searchType options of Some t \<Rightarrow> t | None \<Rightarrow> hybrid),
       results = [], totalResults = 0, processingTime = None,
       error = Some not_configured_message\<rparr>, [])"
  by (simp add: search_def)

lemma search_configured:
  "isConfigured c \<Longrightarrow>
   fst (search c appConfig env rt options) =
     (case fst (makeSearchRequest c appConfig env rt options) of
        Inr rs \<Rightarrow>
          \<lparr>success = True, query = SearchOptions.query options, enhancedQuery = None,
           searchType = (case SearchOptions.searchType options of Some t \<Rightarrow> t | None \<Rightarrow> hybrid),
           results = rs, totalResults = length rs,
           processingTime = Some (now_end env - now_start env), error = None\<rparr>
      | Inl e \<Rightarrow>
          \<lparr>success = False, query = SearchOptions.query options, enhancedQuery = None,
           searchType = (case SearchOptions.searchType options of Some t \<Rightarrow> t | None \<Rightarrow> hybrid),
           results = [], totalResults = 0, processingTime = None,
           error = Some (case e of Error m \<Rightarrow> m | NonError \<Rightarrow> ''Unknown error occurred'')\<rparr>)"
  by (simp add: search_def Let_def split: prod.splits sum.splits)

lemma search_configured_sent:
  "isConfigured c \<Longrightarrow>
   snd (search c appConfig env rt options) = [search_request c appConfig rt options]"
  by (simp add: search_def makeSearchRequest_def Let_def split: prod.splits sum.splits)

text \<open>
  Claim C10. Every response of \<open>search\<close> has \<open>totalResults\<close> equal to the length of
  \<open>results\<close>; a failed one has no results and an error message; a successful one has no
  error field.
\<close>

theorem search_response_invariant:
  assumes "search c appConfig env rt options = (resp, sent)"
  shows "totalResults resp = length (results resp) \<and>
         (\<not> success resp \<longrightarrow> results resp = [] \<and> error resp \<noteq> None) \<and>
         (success resp \<longrightarrow> error resp = None)"
proof (cases "isConfigured c")
  case False
  with assms show ?thesis by (auto simp: search_unconfigured)
next
  case True
  from assms have "resp = fst (search c appConfig env rt options)" by simp
  with True show ?thesis
    by (simp add: search_configured split: sum.splits)
qed

text \<open>
  Claim C6. When the API key or the collection identifier is empty, \<open>search\<close> returns the
  not-configured failure, whatever the environment is, and sends no request: its list of
  requests is empty.
\<close>

theorem search_not_configured:
  assumes "apiKey c = [] \<or> collectionId c = []"
  shows "search c appConfig env rt options =
     (\<lparr>success = False, query = SearchOptions.query options, enhancedQuery = None,
       searchType = (case SearchOptions.searchType options of Some t \<Rightarrow> t | None \<Rightarrow> hybrid),
       results = [], totalResults = 0, processingTime = None,
       error = Some not_configured_message\<rparr>, [])"
  using assms by (intro search_unconfigured) (auto simp: isConfigured_def)

lemma makeSearchRequest_fst:
  "fst (makeSearchRequest c appConfig env rt options) =
     (case fetch env (search_request c appConfig rt options) of
        Rejected e \<Rightarrow> Inl e
      | Responded response \<Rightarrow>
          if \<not> ok response then
            (case body_text response of
               Inl e \<Rightarrow> Inl e
             | Inr errorText \<Rightarrow>
                 Inl (Error (''Airweave API error (''
                   @ numberToString rt (Finite (of_nat (status response))) @ ''): '' @ errorText)))
          else (case body_json response of Inl e \<Rightarrow> Inl e | Inr data \<Rightarrow> transformResponse rt data))"
  by (simp add: makeSearchRequest_def Let_def)

lemma makeSearchRequest_snd:
  "snd (makeSearchRequest c appConfig env rt options) = [search_request c appConfig rt options]"
  by (simp add: makeSearchRequest_def Let_def)

text \<open>
  Claim C2, as the code has it. Whatever the query, when the request is rejected or
  answered with a status outside 200 to 299, \<open>search\<close> returns a response (it is a total
  function: the \<open>catch\<close> clause receives every exception) with \<open>success = false\<close>, no
  results and an error message. The source reads the body text before it builds the
  message. So when the status is 500 and the body text can be read, the message is
  \<open>Airweave API error (500): \<close> followed by that text, and contains \<open>500\<close>; when reading
  the body throws an error, the message is that error's.
\<close>

theorem search_upstream_failure:
  assumes "fetch env (search_request c appConfig rt options) = outcome"
    and "(\<exists>e. outcome = Rejected e) \<or> (\<exists>r. outcome = Responded r \<and> \<not> ok r)"
  shows "\<exists>msg. success (fst (search c appConfig env rt options)) = False \<and>
           results (fst (search c appConfig env rt options)) = [] \<and>
           totalResults (fst (search c appConfig env rt options)) = 0 \<and>
           error (fst (search c appConfig env rt options)) = Some msg \<and>
           (\<forall>r. isConfigured c \<and> outcome = Responded r \<and> status r = 500 \<longrightarrow>
              (\<forall>t. body_text r = Inr t \<longrightarrow>
                 msg = ''Airweave API error (500): '' @ t \<and> sublist ''500'' msg) \<and>
              (\<forall>m. body_text r = Inl (Error m) \<longrightarrow> msg = m))"
proof (cases "isConfigured c")
  case False
  then show ?thesis by (simp add: search_unconfigured)
next
  case True
  define res where "res = fst (makeSearchRequest c appConfig env rt options)"
  note m = res_def [symmetric]
  from assms(2) show ?thesis
  proof
    assume "\<exists>e. outcome = Rejected e"
    then obtain e where e: "outcome = Rejected e" ..
    with assms(1) have "res = Inl e" by (simp add: res_def makeSearchRequest_fst)
    with True m e show ?thesis by (simp add: search_configured)
  next
    assume "\<exists>r. outcome = Responded r \<and> \<not> ok r"
    then obtain r where r: "outcome = Responded r" "\<not> ok r" by blast
    show ?thesis
    proof (cases "body_text r")
      case (Inl e)
      with r assms(1) have "res = Inl e" by (simp add: res_def makeSearchRequest_fst)
      with True m r Inl show ?thesis by (auto simp: search_configured)
    next
      case (Inr t)
      with r assms(1) have "res = Inl (Error (''Airweave API error (''
          @ numberToString rt (Finite (of_nat (status r))) @ ''): '' @ t))"
        by (simp add: res_def makeSearchRequest_fst)
      moreover have "sublist ''500'' (''Airweave API error (500): '' @ t)"
      proof -
        have "''Airweave API error (500): '' @ t = ''Airweave API error ('' @ ''500'' @ (''): '' @ t)"
          by simp
        then show ?thesis unfolding sublist_def by blast
      qed
      ultimately show ?thesis using True m r Inr
        by (simp add: search_configured status_500)
    qed
  qed
qed

text \<open>Claim C2 as stated fails: the upstream answers 500, reading the body throws
  \<open>terminated\<close>, and the error message of the response is that word, without \<open>500\<close>.\<close>

theorem search_500_unreadable_counterexample:
  "error (fst (search sample_client sample_config (answering http_500_unreadable 0 5)
      sample_runtime sample_options)) = Some ''terminated'' \<and>
   \<not> sublist ''500'' ''terminated''"
proof -
  have "fst (makeSearchRequest sample_client sample_config (answering http_500_unreadable 0 5)
      sample_runtime sample_options) = Inl (Error ''terminated'')"
    by (simp add: makeSearchRequest_fst answering_def http_500_unreadable_def ok_def)
  then have "error (fst (search sample_client sample_config (answering http_500_unreadable 0 5)
      sample_runtime sample_options)) = Some ''terminated''"
    by (simp add: search_configured isConfigured_def sample_client_def)
  with not_sublist_500 show ?thesis by blast
qed

text \<open>
  Claim C9. The result list depends on the response value only: two calls of \<open>search\<close>
  with the same client, options and runtime, in environments that may differ in their
  clocks and in the status line of the answer, return the same results when the response
  value is the same; the list is \<open>transformResponse\<close> of that value.
\<close>

theorem search_results_deterministic:
  assumes "fetch env1 (search_request c appConfig rt options) = Responded r1"
    and "fetch env2 (search_request c appConfig rt options) = Responded r2"
    and "ok r1" and "ok r2"
    and "body_json r1 = Inr data" and "body_json r2 = Inr data"
  shows "results (fst (search c appConfig env1 rt options)) =
         results (fst (search c appConfig env2 rt options)) \<and>
         (isConfigured c \<longrightarrow>
            results (fst (search c appConfig env1 rt options)) =
              (case transformResponse rt data of Inr rs \<Rightarrow> rs | Inl e \<Rightarrow> []))"
proof (cases "isConfigured c")
  case False
  then show ?thesis by (simp add: search_unconfigured)
next
  case True
  have 1: "fst (makeSearchRequest c appConfig env1 rt options) = transformResponse rt data"
    using assms by (simp add: makeSearchRequest_fst)
  have 2: "fst (makeSearchRequest c appConfig env2 rt options) = transformResponse rt data"
    using assms by (simp add: makeSearchRequest_fst)
  have r: "\<And>env. results (fst (search c appConfig env rt options)) =
      (case fst (makeSearchRequest c appConfig env rt options) of Inr rs \<Rightarrow> rs | Inl e \<Rightarrow> [])"
    using True by (simp add: search_configured split: prod.splits sum.splits)
  show ?thesis using True by (simp add: r 1 2)
qed


subsection \<open>The gateway at concrete inputs\<close>

lemma sample_client_configured: "isConfigured sample_client"
  by (simp add: isConfigured_def sample_client_def)

lemma transform_sample_hit:
  "transformResponse rt (JObj [(''hits'', JArr [raw_hit ''a'' ''x''])]) = Inr [hit ''a'' ''x'']"
  by (simp add: transformResponse_def rawResults_def transformItem_def raw_hit_def hit_def
      content_value_def id_value_def source_value_def sourceType_value_def score_value_def
      and_then_def or_chain_def js_or_def or_default_def)

text \<open>C2 at three concrete inputs: the upstream answers 500 with the body \<open>boom\<close>, it
  answers 500 with a body that cannot be read, and the request is rejected.\<close>

theorem search_upstream_failure_witness:
  "success (fst (search sample_client sample_config (answering http_500 0 5) sample_runtime
      sample_options)) = False \<and>
   results (fst (search sample_client sample_config (answering http_500 0 5) sample_runtime
      sample_options)) = [] \<and>
   error (fst (search sample_client sample_config (answering http_500 0 5) sample_runtime
      sample_options)) = Some ''Airweave API error (500): boom'' \<and>
   sublist ''500'' ''Airweave API error (500): boom'' \<and>
   error (fst (search sample_client sample_config (answering http_500_unreadable 0 5)
      sample_runtime sample_options)) = Some ''terminated'' \<and>
   success (fst (search sample_client sample_config
      (answering (Rejected (Error ''fetch failed'')) 0 5) sample_runtime sample_options)) = False \<and>
   results (fst (search sample_client sample_config
      (answering (Rejected (Error ''fetch failed'')) 0 5) sample_runtime sample_options)) = []"
proof -
  let ?r = "\<lparr>status = 500, statusText = ''Internal Server Error'',
             body_text = Inr ''boom'', body_json = Inl (Error ''Unexpected token'')\<rparr>"
  let ?u = "\<lparr>status = 500, statusText = ''Internal Server Error'',
             body_text = Inl (Error ''terminated''), body_json = Inl (Error ''terminated'')\<rparr>"
  have 1: "fetch (answering http_500 0 5)
      (search_request sample_client sample_config sample_runtime sample_options) = http_500"
    by (simp add: answering_def)
  have 2: "(\<exists>e. http_500 = Rejected e) \<or> (\<exists>r. http_500 = Responded r \<and> \<not> ok r)"
    by (simp add: http_500_def ok_def)
  from search_upstream_failure [OF 1 2] obtain msg where
    m: "success (fst (search sample_client sample_config (answering http_500 0 5) sample_runtime
          sample_options)) = False"
       "results (fst (search sample_client sample_config (answering http_500 0 5) sample_runtime
          sample_options)) = []"
       "error (fst (search sample_client sample_config (answering http_500 0 5) sample_runtime
          sample_options)) = Some msg"
       "\<forall>r. isConfigured sample_client \<and> http_500 = Responded r \<and> status r = 500 \<longrightarrow>
          (\<forall>t. body_text r = Inr t \<longrightarrow>
             msg = ''Airweave API error (500): '' @ t \<and> sublist ''500'' msg) \<and>
          (\<forall>m. body_text r = Inl (Error m) \<longrightarrow> msg = m)"
    by blast
  have "isConfigured sample_client \<and> http_500 = Responded ?r \<and> status ?r = 500"
    "body_text ?r = Inr ''boom''"
    by (simp_all add: sample_client_configured http_500_def)
  with m(4) have ms: "msg = ''Airweave API error (500): '' @ ''boom'' \<and> sublist ''500'' msg"
    by blast
  from ms have e: "msg = ''Airweave API error (500): boom''" by simp
  from ms have s: "sublist ''500'' msg" by (rule conjunct2)
  from s have s': "sublist ''500'' ''Airweave API error (500): boom''"
    unfolding e .
  have 5: "fetch (answering http_500_unreadable 0 5)
      (search_request sample_client sample_config sample_runtime sample_options)
      = http_500_unreadable"
    by (simp add: answering_def)
  have 6: "(\<exists>e. http_500_unreadable = Rejected e) \<or>
           (\<exists>r. http_500_unreadable = Responded r \<and> \<not> ok r)"
    by (simp add: http_500_unreadable_def ok_def)
  from search_upstream_failure [OF 5 6] obtain msg' where
    u: "error (fst (search sample_client sample_config (answering http_500_unreadable 0 5)
          sample_runtime sample_options)) = Some msg'"
       "\<forall>r. isConfigured sample_client \<and> http_500_unreadable = Responded r \<and> status r = 500 \<longrightarrow>
          (\<forall>t. body_text r = Inr t \<longrightarrow>
             msg' = ''Airweave API error (500): '' @ t \<and> sublist ''500'' msg') \<and>
          (\<forall>m. body_text r = Inl (Error m) \<longrightarrow> msg' = m)"
    by blast
  have "isConfigured sample_client \<and> http_500_unreadable = Responded ?u \<and> status ?u = 500"
    "body_text ?u = Inl (Error ''terminated'')"
    by (simp_all add: sample_client_configured http_500_unreadable_def)
  with u(2) have "msg' = ''terminated''"
    by blast
  with u(1) have u': "error (fst (search sample_client sample_config
      (answering http_500_unreadable 0 5) sample_runtime sample_options)) = Some ''terminated''"
    by simp
  have 3: "fetch (answering (Rejected (Error ''fetch failed'')) 0 5)
      (search_request sample_client sample_config sample_runtime sample_options)
      = Rejected (Error ''fetch failed'')"
    by (simp add: answering_def)
  have 4: "(\<exists>e. Rejected (Error ''fetch failed'') = Rejected e) \<or>
           (\<exists>r. Rejected (Error ''fetch failed'') = Responded r \<and> \<not> ok r)"
    by simp
  from search_upstream_failure [OF 3 4]
  have r: "success (fst (search sample_client sample_config
        (answering (Rejected (Error ''fetch failed'')) 0 5) sample_runtime sample_options)) = False \<and>
      results (fst (search sample_client sample_config
        (answering (Rejected (Error ''fetch failed'')) 0 5) sample_runtime sample_options)) = []"
    by blast
  from m(1,2) m(3) [unfolded e] s' u' r show ?thesis by blast
qed

text \<open>C6 at a concrete input: a client with an empty API key.\<close>

theorem search_not_configured_witness:
  "snd (search unconfigured_client sample_config
          (answering (http_200 (JArr [raw_hit ''a'' ''x''])) 0 5) sample_runtime sample_options) = [] \<and>
   success (fst (search unconfigured_client sample_config
          (answering (http_200 (JArr [raw_hit ''a'' ''x''])) 0 5) sample_runtime sample_options)) = False \<and>
   error (fst (search unconfigured_client sample_config
          (answering (http_200 (JArr [raw_hit ''a'' ''x''])) 0 5) sample_runtime sample_options))
     = Some not_configured_message"
proof -
  have "apiKey unconfigured_client = [] \<or> collectionId unconfigured_client = []"
    by (simp add: unconfigured_client_def)
  from search_not_configured [OF this] show ?thesis by simp
qed

text \<open>C9 at a concrete input: the same value answered with status 200 at one time and with
  status 201 at another.\<close>

theorem search_results_deterministic_witness:
  "results (fst (search sample_client sample_config
       (answering (http_200 (JObj [(''hits'', JArr [raw_hit ''a'' ''x''])])) 0 5)
       sample_runtime sample_options)) =
   results (fst (search sample_client sample_config
       (answering (http_201 (JObj [(''hits'', JArr [raw_hit ''a'' ''x''])])) 100 900)
       sample_runtime sample_options)) \<and>
   results (fst (search sample_client sample_config
       (answering (http_200 (JObj [(''hits'', JArr [raw_hit ''a'' ''x''])])) 0 5)
       sample_runtime sample_options)) = [hit ''a'' ''x'']"
proof -
  let ?d = "JObj [(''hits'', JArr [raw_hit ''a'' ''x''])]"
  let ?q = "search_request sample_client sample_config sample_runtime sample_options"
  let ?r1 = "\<lparr>status = 200, statusText = ''OK'', body_text = Inr [], body_json = Inr ?d\<rparr>"
  let ?r2 = "\<lparr>status = 201, statusText = ''Created'', body_text = Inr [], body_json = Inr ?d\<rparr>"
  have 1: "fetch (answering (http_200 ?d) 0 5) ?q = Responded ?r1"
    by (simp add: answering_def http_200_def)
  have 2: "fetch (answering (http_201 ?d) 100 900) ?q = Responded ?r2"
    by (simp add: answering_def http_201_def)
  have 3: "ok ?r1" "ok ?r2" by (simp_all add: ok_def)
  have 4: "body_json ?r1 = Inr ?d" "body_json ?r2 = Inr ?d" by simp_all
  from search_results_deterministic [OF 1 2 3 4]
  have a: "results (fst (search sample_client sample_config (answering (http_200 ?d) 0 5)
             sample_runtime sample_options)) =
           results (fst (search sample_client sample_config (answering (http_201 ?d) 100 900)
             sample_runtime sample_options))"
    and b: "isConfigured sample_client \<longrightarrow>
           results (fst (search sample_client sample_config (answering (http_200 ?d) 0 5)
             sample_runtime sample_options)) =
           (case transformResponse sample_runtime ?d of Inr rs \<Rightarrow> rs | Inl e \<Rightarrow> [])"
    by blast+
  from b have "results (fst (search sample_client sample_config (answering (http_200 ?d) 0 5)
             sample_runtime sample_options)) = [hit ''a'' ''x'']"
    using sample_client_configured by (simp only: transform_sample_hit sum.case)
  with a show ?thesis by blast
qed

text \<open>C10 at two concrete inputs: a successful search and a failed one.\<close>

theorem search_response_invariant_witness:
  "totalResults (fst (search sample_client sample_config
       (answering (http_200 (JObj [(''hits'', JArr [raw_hit ''a'' ''x''])])) 0 5)
       sample_runtime sample_options)) = 1 \<and>
   error (fst (search sample_client sample_config
       (answering (http_200 (JObj [(''hits'', JArr [raw_hit ''a'' ''x''])])) 0 5)
       sample_runtime sample_options)) = None \<and>
   results (fst (search sample_client sample_config (answering http_500 0 5)
       sample_runtime sample_options)) = [] \<and>
   error (fst (search sample_client sample_config (answering http_500 0 5)
       sample_runtime sample_options)) \<noteq> None"
proof -
  let ?A = "search sample_client sample_config
       (answering (http_200 (JObj [(''hits'', JArr [raw_hit ''a'' ''x''])])) 0 5)
       sample_runtime sample_options"
  let ?B = "search sample_client sample_config (answering http_500 0 5)
       sample_runtime sample_options"
  have mA: "fst (makeSearchRequest sample_client sample_config
       (answering (http_200 (JObj [(''hits'', JArr [raw_hit ''a'' ''x''])])) 0 5)
       sample_runtime sample_options) = Inr [hit ''a'' ''x'']"
    by (simp add: makeSearchRequest_fst answering_def http_200_def ok_def transform_sample_hit)
  have mB: "fst (makeSearchRequest sample_client sample_config (answering http_500 0 5)
       sample_runtime sample_options) = Inl (Error ''Airweave API error (500): boom'')"
    by (simp add: makeSearchRequest_fst answering_def http_500_def ok_def status_500)
  have sA: "success (fst ?A)" "results (fst ?A) = [hit ''a'' ''x'']"
    using mA by (simp_all add: search_configured sample_client_configured hit_def)
  have sB: "\<not> success (fst ?B)"
    using mB by (simp add: search_configured sample_client_configured)
  have A: "?A = (fst ?A, snd ?A)" and B: "?B = (fst ?B, snd ?B)" by simp_all
  from search_response_invariant [OF A] search_response_invariant [OF B] sA sB
  show ?thesis by simp
qed

section \<open>Normalisation of one element\<close>

subsection \<open>The relevance score\<close>

text \<open>A chain of \<open>||\<close> that ends in a value that is always there gives the first truthy
  operand, and that last value when no operand is truthy.\<close>

lemma first_truthy_js_or:
  "first_truthy (js_or a b # bs) = first_truthy (a # b # bs)"
  by (simp add: first_truthy_def js_or_def)

lemma or_chain_first_truthy:
  "or_default (or_chain a bs) d = (case first_truthy (a # bs) of Some v \<Rightarrow> v | None \<Rightarrow> d)"
proof (induction bs arbitrary: a)
  case Nil
  show ?case
    by (cases a) (simp_all add: or_chain_def or_default_def first_truthy_def)
next
  case (Cons b bs)
  have "or_chain a (b # bs) = or_chain (js_or a b) bs"
    by (simp add: or_chain_def)
  with Cons.IH [of "js_or a b"] show ?case
    by (simp only: first_truthy_js_or)
qed






text \<open>The callback returns a record exactly when the element is not \<open>null\<close> and its five
  conversions return; the record holds their results.\<close>

lemma and_then_Inr:
  "(and_then r f = Inr y) = (\<exists>v. r = Inr v \<and> f v = Inr y)"
  by (cases r) (simp_all add: and_then_def)

lemma transformItem_Inr:
  "(transformItem rt item index = Inr r) =
     (item \<noteq> JNull \<and>
      (\<exists>c i s t n.
         jsString rt (content_value rt item) = Inr c \<and>
         jsString rt (id_value item index) = Inr i \<and>
         jsString rt (source_value item) = Inr s \<and>
         jsString rt (sourceType_value item) = Inr t \<and>
         toNumber rt (score_value item) = Inr n \<and>
         r = \<lparr>id' = i, content = c, source = s, sourceType = t, score = n,
              metadata = property item ''metadata'', url = property item ''url'',
              title = js_or (property item ''title'') (property item ''name''),
              createdAt = js_or (property item ''created_at'') (property item ''createdAt''),
              updatedAt = js_or (property item ''updated_at'') (property item ''updatedAt'')\<rparr>))"
  by (auto simp: transformItem_def Let_def and_then_Inr)








subsection \<open>Elements that end the batch\<close>

text \<open>A record whose score is an object with an own \<open>toString\<close> property: \<open>Number\<close>
  throws, and the callback returns no record.\<close>

lemma toString_key_aborts:
  "transformItem rt (JObj [(''content'', JStr ''c''),
       (''score'', JObj [(''toString'', JNum (Finite 1))])]) index
     = Inl (Error primitive_error_message)"
  by (simp add: transformItem_def Let_def and_then_def content_value_def id_value_def
      source_value_def sourceType_value_def score_value_def or_chain_def js_or_def or_default_def)

text \<open>The callback throws on \<open>null\<close>, so a batch with a \<open>null\<close> in it is never mapped; a
  batch that is mapped gives one record for each element.\<close>

lemma transformItem_null: "transformItem rt JNull index = Inl (Error null_read_message)"
  by (simp add: transformItem_def)

lemma mapItems_null:
  "JNull \<in> set items \<Longrightarrow> \<exists>e. mapItems rt index items = Inl e"
proof (induction items arbitrary: index)
  case Nil
  then show ?case by simp
next
  case (Cons item items)
  show ?case
  proof (cases "item = JNull")
    case True
    then show ?thesis by (simp add: transformItem_null)
  next
    case False
    with Cons obtain e where "mapItems rt (Suc index) items = Inl e"
      by auto
    then show ?thesis by (simp split: sum.splits)
  qed
qed

lemma mapItems_length:
  "mapItems rt index items = Inr rs \<Longrightarrow> length rs = length items"
  by (induction items arbitrary: index rs) (auto split: sum.splits)

text \<open>The record of a well-formed element.\<close>

lemma transformItem_raw_hit:
  "i \<noteq> [] \<Longrightarrow> t \<noteq> [] \<Longrightarrow> transformItem rt (raw_hit i t) index = Inr (hit i t)"
  by (simp add: transformItem_def raw_hit_def hit_def
      content_value_def id_value_def source_value_def sourceType_value_def score_value_def
      and_then_def or_chain_def js_or_def or_default_def)

text \<open>An element with no truthy content field gets its serialized form as content.\<close>

lemma content_serialized:
  assumes "transformItem rt item index = Inr r"
    and "first_truthy (map (property item) content_fields) = None"
  shows "content r = stringify rt item"
proof -
  from assms(2) have "content_value rt item = JStr (stringify rt item)"
    by (simp add: content_value_def or_chain_first_truthy content_fields_def)
  with assms(1) show ?thesis by (auto simp: transformItem_Inr)
qed

text \<open>The content of a record whose \<open>content\<close> field is the empty array: the array is
  truthy, and its string is empty.\<close>

lemma empty_content:
  "transformItem rt (JObj [(''content'', JArr [])]) index = Inr r \<Longrightarrow> content r = []"
  by (auto simp: transformItem_Inr content_value_def or_chain_def js_or_def or_default_def)

text \<open>
  Claim C4 at the response \<open>[{"id": "a", "text": "x", "score": 2}, null]\<close>. The \<open>null\<close>
  element ends the whole batch: \<open>transformResponse\<close> throws, and \<open>search\<close> turns the
  exception into a failed response without results, the good first element included.
\<close>

theorem null_element_aborts_batch:
  "transformResponse rt (JArr [raw_hit ''a'' ''x'', JNull]) = Inl (Error null_read_message) \<and>
   fst (search sample_client sample_config
          (answering (http_200 (JArr [raw_hit ''a'' ''x'', JNull])) 0 5) rt sample_options) =
     \<lparr>success = False, query = ''hello'', enhancedQuery = None, searchType = hybrid,
      results = [], totalResults = 0, processingTime = None,
      error = Some null_read_message\<rparr>"
proof -
  have t: "transformResponse rt (JArr [raw_hit ''a'' ''x'', JNull]) = Inl (Error null_read_message)"
    by (simp add: transformResponse_def rawResults_def transformItem_raw_hit transformItem_null)
  have "fst (makeSearchRequest sample_client sample_config
          (answering (http_200 (JArr [raw_hit ''a'' ''x'', JNull])) 0 5) rt sample_options)
        = Inl (Error null_read_message)"
    by (simp add: makeSearchRequest_def Let_def answering_def http_200_def ok_def t)
  then have "fst (search sample_client sample_config
          (answering (http_200 (JArr [raw_hit ''a'' ''x'', JNull])) 0 5) rt sample_options) =
     \<lparr>success = False, query = ''hello'', enhancedQuery = None, searchType = hybrid,
      results = [], totalResults = 0, processingTime = None,
      error = Some null_read_message\<rparr>"
    using sample_client_configured
    by (simp add: search_configured sample_options_def)
  with t show ?thesis by blast
qed

section \<open>The enhancement pipeline\<close>

subsection \<open>Fallbacks of \<open>enhanceQuery\<close> and \<open>summarizeResults\<close>\<close>

lemma enhanceQuery_failure:
  "model_failure m \<Longrightarrow> enhanceQuery svc appConfig m q = identity_enhancement q"
  by (auto simp: model_failure_def enhanceQuery_def enhance_from_text_def Let_def
      split: sum.splits option.splits)

lemma summarizeResults_failure:
  "model_failure m \<Longrightarrow> ai_isConfigured svc appConfig \<Longrightarrow> rs \<noteq> [] \<Longrightarrow>
   summarizeResults svc appConfig m rs q = failed_summary"
  by (auto simp: model_failure_def summarizeResults_def summary_from_text_def Let_def
      split: sum.splits option.splits)

text \<open>
  Claim C7, as the code has it. Both operations are total functions: every exception of
  the \<open>try\<close> block reaches the \<open>catch\<close> clause. \<open>enhanceQuery\<close> returns the identity
  enhancement when the provider is not configured and on every failure of the model
  call. \<open>summarizeResults\<close> returns one placeholder when the provider is not configured
  or there are no results (\<open>No results to summarize.\<close>), and another one on every failure
  (\<open>Failed to generate summary.\<close>); both have empty key points and topics.
\<close>

theorem enhancement_fallbacks:
  "(\<not> ai_isConfigured svc appConfig \<longrightarrow>
      enhanceQuery svc appConfig m q = identity_enhancement q \<and>
      summarizeResults svc appConfig m rs q = no_results_summary) \<and>
   (rs = [] \<longrightarrow> summarizeResults svc appConfig m rs q = no_results_summary) \<and>
   (model_failure m \<longrightarrow>
      enhanceQuery svc appConfig m q = identity_enhancement q \<and>
      (ai_isConfigured svc appConfig \<and> rs \<noteq> [] \<longrightarrow>
         summarizeResults svc appConfig m rs q = failed_summary)) \<and>
   identity_enhancement q =
     \<lparr>originalQuery = q, enhancedQuery = JStr q, keywords' = JArr [], intent = JStr ''search''\<rparr> \<and>
   no_results_summary =
     \<lparr>summary = JStr ''No results to summarize.'', keyPoints = JArr [], relevantTopics = JArr []\<rparr> \<and>
   failed_summary =
     \<lparr>summary = JStr ''Failed to generate summary.'', keyPoints = JArr [], relevantTopics = JArr []\<rparr>"
proof -
  have 1: "\<not> ai_isConfigured svc appConfig \<longrightarrow>
      enhanceQuery svc appConfig m q = identity_enhancement q \<and>
      summarizeResults svc appConfig m rs q = no_results_summary"
    by (simp add: enhanceQuery_def summarizeResults_def)
  have 2: "rs = [] \<longrightarrow> summarizeResults svc appConfig m rs q = no_results_summary"
    by (simp add: summarizeResults_def)
  have 3: "model_failure m \<longrightarrow>
      enhanceQuery svc appConfig m q = identity_enhancement q \<and>
      (ai_isConfigured svc appConfig \<and> rs \<noteq> [] \<longrightarrow>
         summarizeResults svc appConfig m rs q = failed_summary)"
    using enhanceQuery_failure summarizeResults_failure by blast
  have 4: "identity_enhancement q =
     \<lparr>originalQuery = q, enhancedQuery = JStr q, keywords' = JArr [], intent = JStr ''search''\<rparr>"
    by (simp add: identity_enhancement_def)
  have 5: "no_results_summary =
     \<lparr>summary = JStr ''No results to summarize.'', keyPoints = JArr [], relevantTopics = JArr []\<rparr>"
    by (simp add: no_results_summary_def)
  have 6: "failed_summary =
     \<lparr>summary = JStr ''Failed to generate summary.'', keyPoints = JArr [], relevantTopics = JArr []\<rparr>"
    by (simp add: failed_summary_def)
  from 1 2 3 4 5 6 show ?thesis by blast
qed

text \<open>Concrete inputs: a configuration without the provider's key, and a rejected call.\<close>

lemma ai_sample_unconfigured: "\<not> ai_isConfigured sample_service unconfigured_config"
  by (simp add: ai_isConfigured_def sample_service_def sample_config_def unconfigured_config_def
      key_truthy_def)

lemma rejected_failure: "model_failure rejected"
  by (simp add: model_failure_def rejected_def)

text \<open>Claim C7 as stated fails: the summary of the unconfigured case is not the summary
  of the failure case.\<close>

theorem summaries_differ_counterexample:
  "summarizeResults sample_service unconfigured_config rejected [hit ''a'' ''x''] ''q'' \<noteq>
   summarizeResults sample_service sample_config rejected [hit ''a'' ''x''] ''q''"
  using sample_configured ai_sample_unconfigured
  by (simp add: summarizeResults_def rejected_def no_results_summary_def failed_summary_def)

text \<open>C7 at concrete inputs: not configured, no results, and a rejected call.\<close>

theorem enhancement_fallbacks_witness:
  "enhanceQuery sample_service unconfigured_config rejected ''q'' = identity_enhancement ''q'' \<and>
   summarizeResults sample_service unconfigured_config rejected [hit ''a'' ''x''] ''q'' = no_results_summary \<and>
   summarizeResults sample_service sample_config rejected [] ''q'' = no_results_summary \<and>
   enhanceQuery sample_service sample_config rejected ''q'' = identity_enhancement ''q'' \<and>
   summarizeResults sample_service sample_config rejected [hit ''a'' ''x''] ''q'' = failed_summary"
  using enhancement_fallbacks [of sample_service unconfigured_config rejected "''q''" "[hit ''a'' ''x'']"]
    enhancement_fallbacks [of sample_service sample_config rejected "''q''" "[]"]
    enhancement_fallbacks [of sample_service sample_config rejected "''q''" "[hit ''a'' ''x'']"]
    sample_configured ai_sample_unconfigured rejected_failure
  by simp

subsection \<open>The span of the brace pattern\<close>

text \<open>After the opening brace, the greedy class takes the text up to its last closing
  brace: what \<open>match_here\<close> leaves is the text after that brace.\<close>

lemma star_then_brace:
  "match_here [((\<lambda>c. is_space c \<or> \<not> is_space c), Star), lit CHR ''}''] s =
     (if CHR ''}'' \<in> set s then Some (rev (takeWhile (\<lambda>c. c \<noteq> CHR ''}'') (rev s))) else None)"
proof (induction s)
  case Nil
  then show ?case by (simp add: lit_def)
next
  case (Cons c cs)
  show ?case
  proof (cases "CHR ''}'' \<in> set cs")
    case True
    then have "takeWhile (\<lambda>c. c \<noteq> CHR ''}'') (rev cs @ [c]) = takeWhile (\<lambda>c. c \<noteq> CHR ''}'') (rev cs)"
      by (intro takeWhile_append1 [of "CHR ''}''"]) auto
    with True Cons show ?thesis by simp
  next
    case False
    show ?thesis
    proof (cases "c = CHR ''}''")
      case True
      have "takeWhile (\<lambda>x. x \<noteq> CHR ''}'') (rev cs @ [c]) = rev cs"
        using False True by (subst takeWhile_append2) auto
      with False True Cons show ?thesis by (simp add: lit_def)
    next
      case other: False
      with False Cons show ?thesis by (simp add: lit_def)
    qed
  qed
qed

lemma take_before_last:
  "take (length xs - length (takeWhile P (rev xs))) xs = rev (dropWhile P (rev xs))"
proof -
  have "xs = rev (dropWhile P (rev xs)) @ rev (takeWhile P (rev xs))"
    by (metis rev_append rev_rev_ident takeWhile_dropWhile_id)
  moreover have "length (rev (dropWhile P (rev xs))) = length xs - length (takeWhile P (rev xs))"
    by (metis add_diff_cancel_left' length_append length_rev takeWhile_dropWhile_id)
  ultimately show ?thesis
    by (metis append_eq_conv_conj)
qed

lemma rx_match_outer_brace_span: "rx_match json_object_rx s = outer_brace_span s"
proof (induction s)
  case Nil
  then show ?case by (simp add: json_object_rx_def lit_def outer_brace_span_def)
next
  case (Cons c cs)
  show ?case
  proof (cases "c = CHR ''{''")
    case False
    with Cons show ?thesis
      by (simp add: json_object_rx_def lit_def outer_brace_span_def)
  next
    case brace: True
    show ?thesis
    proof (cases "CHR ''}'' \<in> set cs")
      case True
      have le: "length (takeWhile (\<lambda>c. c \<noteq> CHR ''}'') (rev cs)) \<le> length cs"
        by (metis length_rev length_takeWhile_le)
      have d: "dropWhile (\<lambda>c. c \<noteq> CHR ''}'') (rev cs @ [c]) = dropWhile (\<lambda>c. c \<noteq> CHR ''}'') (rev cs) @ [c]"
        using True by (intro dropWhile_append1 [of "CHR ''}''"]) auto
      from brace True le show ?thesis
        using star_then_brace [of cs] take_before_last [of cs "\<lambda>c. c \<noteq> CHR ''}''"]
        by (simp add: json_object_rx_def lit_def outer_brace_span_def d Suc_diff_le)
    next
      case False
      then have "CHR ''}'' \<notin> set (dropWhile (\<lambda>c. c \<noteq> CHR ''{'') cs)"
        by (meson set_dropWhileD)
      then have "outer_brace_span cs = None"
        by (simp add: outer_brace_span_def)
      with brace False Cons show ?thesis
        using star_then_brace [of cs]
        by (simp add: json_object_rx_def lit_def outer_brace_span_def)
    qed
  qed
qed

lemma outer_brace_span_whole:
  "outer_brace_span (CHR ''{'' # u @ ''}'') = Some (CHR ''{'' # u @ ''}'')"
  by (simp add: outer_brace_span_def)


text \<open>What the two operations return once the pattern has matched.\<close>

lemma enhanceQuery_span:
  assumes "ai_isConfigured svc appConfig" and "generated m = Inr text"
    and "rx_match json_object_rx (trim text) = Some jsonMatch"
  shows "enhanceQuery svc appConfig m q =
     (case JSON_parse m jsonMatch of
        Inl e \<Rightarrow> identity_enhancement q
      | Inr parsed \<Rightarrow>
          if parsed = JNull then identity_enhancement q
          else \<lparr>originalQuery = q,
                enhancedQuery = or_default (property parsed ''enhanced_query'') (JStr q),
                keywords' = or_default (property parsed ''keywords'') (JArr []),
                intent = or_default (property parsed ''intent'') (JStr ''search'')\<rparr>)"
  using assms by (simp add: enhanceQuery_def enhance_from_text_def Let_def split: sum.splits)

lemma summarizeResults_span:
  assumes "ai_isConfigured svc appConfig" and "generated m = Inr text"
    and "rx_match json_object_rx (trim text) = Some jsonMatch" and "rs \<noteq> []"
  shows "summarizeResults svc appConfig m rs q =
     (case JSON_parse m jsonMatch of
        Inl e \<Rightarrow> failed_summary
      | Inr parsed \<Rightarrow>
          if parsed = JNull then failed_summary
          else \<lparr>summary = or_default (property parsed ''summary'') (JStr ''Unable to generate summary.''),
                keyPoints = or_default (property parsed ''key_points'') (JArr []),
                relevantTopics = or_default (property parsed ''relevant_topics'') (JArr [])\<rparr>)"
  using assms by (simp add: summarizeResults_def summary_from_text_def Let_def split: sum.splits)

text \<open>
  Claim C8, as the code has it. The pattern selects the span from the first opening
  brace of the text to its last closing brace (no span when no closing brace follows the
  first opening one). A text that starts with an opening brace and ends with a closing
  one is therefore selected whole, two objects with text between them included. The span
  is given to \<open>JSON.parse\<close>: when that throws, the stage returns its fallback; when it
  returns a value, the fields of that value are used.
\<close>

theorem json_span_outer_braces:
  "rx_match json_object_rx s = outer_brace_span s \<and>
   rx_match json_object_rx (CHR ''{'' # u @ ''}'') = Some (CHR ''{'' # u @ ''}'') \<and>
   (ai_isConfigured svc appConfig \<and> generated m = Inr text \<and>
    outer_brace_span (trim text) = Some jsonMatch \<longrightarrow>
      (\<forall>e. JSON_parse m jsonMatch = Inl e \<longrightarrow>
         enhanceQuery svc appConfig m q = identity_enhancement q \<and>
         (rs \<noteq> [] \<longrightarrow> summarizeResults svc appConfig m rs q = failed_summary)) \<and>
      (\<forall>parsed. JSON_parse m jsonMatch = Inr parsed \<and> parsed \<noteq> JNull \<longrightarrow>
         enhanceQuery svc appConfig m q =
           \<lparr>originalQuery = q,
            enhancedQuery = or_default (property parsed ''enhanced_query'') (JStr q),
            keywords' = or_default (property parsed ''keywords'') (JArr []),
            intent = or_default (property parsed ''intent'') (JStr ''search'')\<rparr> \<and>
         (rs \<noteq> [] \<longrightarrow>
            summarizeResults svc appConfig m rs q =
              \<lparr>summary = or_default (property parsed ''summary'')
                           (JStr ''Unable to generate summary.''),
               keyPoints = or_default (property parsed ''key_points'') (JArr []),
               relevantTopics = or_default (property parsed ''relevant_topics'') (JArr [])\<rparr>)))"
proof -
  have 1: "rx_match json_object_rx s = outer_brace_span s"
    by (rule rx_match_outer_brace_span)
  have 2: "rx_match json_object_rx (CHR ''{'' # u @ ''}'') = Some (CHR ''{'' # u @ ''}'')"
    by (simp only: rx_match_outer_brace_span outer_brace_span_whole)
  have 3: "ai_isConfigured svc appConfig \<and> generated m = Inr text \<and>
    outer_brace_span (trim text) = Some jsonMatch \<longrightarrow>
      (\<forall>e. JSON_parse m jsonMatch = Inl e \<longrightarrow>
         enhanceQuery svc appConfig m q = identity_enhancement q \<and>
         (rs \<noteq> [] \<longrightarrow> summarizeResults svc appConfig m rs q = failed_summary)) \<and>
      (\<forall>parsed. JSON_parse m jsonMatch = Inr parsed \<and> parsed \<noteq> JNull \<longrightarrow>
         enhanceQuery svc appConfig m q =
           \<lparr>originalQuery = q,
            enhancedQuery = or_default (property parsed ''enhanced_query'') (JStr q),
            keywords' = or_default (property parsed ''keywords'') (JArr []),
            intent = or_default (property parsed ''intent'') (JStr ''search'')\<rparr> \<and>
         (rs \<noteq> [] \<longrightarrow>
            summarizeResults svc appConfig m rs q =
              \<lparr>summary = or_default (property parsed ''summary'')
                           (JStr ''Unable to generate summary.''),
               keyPoints = or_default (property parsed ''key_points'') (JArr []),
               relevantTopics = or_default (property parsed ''relevant_topics'') (JArr [])\<rparr>))"
  proof (intro impI, elim conjE)
    assume a: "ai_isConfigured svc appConfig" "generated m = Inr text"
      "outer_brace_span (trim text) = Some jsonMatch"
    then have s: "rx_match json_object_rx (trim text) = Some jsonMatch"
      by (simp only: rx_match_outer_brace_span)
    show "(\<forall>e. JSON_parse m jsonMatch = Inl e \<longrightarrow>
         enhanceQuery svc appConfig m q = identity_enhancement q \<and>
         (rs \<noteq> [] \<longrightarrow> summarizeResults svc appConfig m rs q = failed_summary)) \<and>
      (\<forall>parsed. JSON_parse m jsonMatch = Inr parsed \<and> parsed \<noteq> JNull \<longrightarrow>
         enhanceQuery svc appConfig m q =
           \<lparr>originalQuery = q,
            enhancedQuery = or_default (property parsed ''enhanced_query'') (JStr q),
            keywords' = or_default (property parsed ''keywords'') (JArr []),
            intent = or_default (property parsed ''intent'') (JStr ''search'')\<rparr> \<and>
         (rs \<noteq> [] \<longrightarrow>
            summarizeResults svc appConfig m rs q =
              \<lparr>summary = or_default (property parsed ''summary'')
                           (JStr ''Unable to generate summary.''),
               keyPoints = or_default (property parsed ''key_points'') (JArr []),
               relevantTopics = or_default (property parsed ''relevant_topics'') (JArr [])\<rparr>))"
      using enhanceQuery_span [OF a(1,2) s, of q] summarizeResults_span [OF a(1,2) s, of rs q]
      by simp
  qed
  from 1 2 3 show ?thesis by blast
qed

text \<open>Claim C8 as stated fails: in \<open>{} and {}\<close> the first balanced span is \<open>{}\<close>, and the
  pattern selects the whole text.\<close>

theorem first_balanced_span_counterexample:
  "rx_match json_object_rx (trim ''{} and {}'') = Some ''{} and {}'' \<and>
   first_balanced_span (trim ''{} and {}'') = Some ''{}'' \<and>
   rx_match json_object_rx (trim ''{} and {}'') \<noteq> first_balanced_span (trim ''{} and {}'')"
proof -
  have t: "trim ''{} and {}'' = ''{} and {}''"
    by (simp add: trim_def is_space_def)
  have 1: "rx_match json_object_rx ''{} and {}'' = Some ''{} and {}''"
    by (simp add: json_object_rx_def lit_def)
  have 2: "first_balanced_span ''{} and {}'' = Some ''{}''"
    by (simp add: first_balanced_span_def)
  from 1 2 show ?thesis unfolding t by simp
qed

text \<open>C8 at concrete inputs: an answer with two objects, whose span does not parse, and an
  answer with one object, whose span does.\<close>

theorem json_span_outer_braces_witness:
  "rx_match json_object_rx ''{} and {}'' = Some ''{} and {}'' \<and>
   enhanceQuery sample_service sample_config (answer ''{} and {}'') ''q'' = identity_enhancement ''q'' \<and>
   summarizeResults sample_service sample_config (answer ''{} and {}'') [hit ''a'' ''x''] ''q''
     = failed_summary \<and>
   enhanceQuery sample_service sample_config
       (answer_parsing ''Here: {}'' ''{}'' (JObj [(''intent'', JStr ''find'')])) ''q''
     = \<lparr>originalQuery = ''q'', enhancedQuery = JStr ''q'', keywords' = JArr [],
        intent = JStr ''find''\<rparr> \<and>
   summarizeResults sample_service sample_config
       (answer_parsing ''Here: {}'' ''{}'' (JObj [(''intent'', JStr ''find'')])) [hit ''a'' ''x''] ''q''
     = \<lparr>summary = JStr ''Unable to generate summary.'', keyPoints = JArr [],
        relevantTopics = JArr []\<rparr>"
proof -
  have t1: "trim ''{} and {}'' = ''{} and {}''"
    by (simp add: trim_def is_space_def)
  have o1: "outer_brace_span ''{} and {}'' = Some ''{} and {}''"
    by (simp add: outer_brace_span_def)
  have t2: "trim ''Here: {}'' = ''Here: {}''"
    by (simp add: trim_def is_space_def)
  have o2: "outer_brace_span ''Here: {}'' = Some ''{}''"
    by (simp add: outer_brace_span_def)
  note A = json_span_outer_braces [of "''{} and {}''" "'' and {''" sample_service sample_config
      "answer ''{} and {}''" "''{} and {}''" "''{} and {}''" "''q''" "[hit ''a'' ''x'']"]
  note B = json_span_outer_braces [of "''{} and {}''" "'' and {''" sample_service sample_config
      "answer_parsing ''Here: {}'' ''{}'' (JObj [(''intent'', JStr ''find'')])" "''Here: {}''" "''{}''"
      "''q''" "[hit ''a'' ''x'']"]
  have a: "generated (answer ''{} and {}'') = Inr ''{} and {}''"
    "JSON_parse (answer ''{} and {}'') ''{} and {}'' = Inl (Error ''Unexpected token'')"
    by (simp_all add: answer_def)
  have b: "generated (answer_parsing ''Here: {}'' ''{}'' (JObj [(''intent'', JStr ''find'')])) = Inr ''Here: {}''"
    "JSON_parse (answer_parsing ''Here: {}'' ''{}'' (JObj [(''intent'', JStr ''find'')])) ''{}''
       = Inr (JObj [(''intent'', JStr ''find'')])"
    by (simp_all add: answer_parsing_def)
  from A a t1 o1 sample_configured
  have A': "rx_match json_object_rx ''{} and {}'' = Some ''{} and {}'' \<and>
     enhanceQuery sample_service sample_config (answer ''{} and {}'') ''q'' = identity_enhancement ''q'' \<and>
     summarizeResults sample_service sample_config (answer ''{} and {}'') [hit ''a'' ''x''] ''q''
       = failed_summary"
    by simp
  from B b t2 o2 sample_configured
  have B': "enhanceQuery sample_service sample_config
       (answer_parsing ''Here: {}'' ''{}'' (JObj [(''intent'', JStr ''find'')])) ''q''
     = \<lparr>originalQuery = ''q'', enhancedQuery = JStr ''q'', keywords' = JArr [],
        intent = JStr ''find''\<rparr> \<and>
   summarizeResults sample_service sample_config
       (answer_parsing ''Here: {}'' ''{}'' (JObj [(''intent'', JStr ''find'')])) [hit ''a'' ''x''] ''q''
     = \<lparr>summary = JStr ''Unable to generate summary.'', keyPoints = JArr [],
        relevantTopics = JArr []\<rparr>"
    by (simp add: or_default_def)
  from A' B' show ?thesis by blast
qed

end
